theory Spec2Isabelle
  imports Main "HOL-Library.AList" "HOL-Library.Multiset"
begin

section \<open>JavaScript values and the platform\<close>

text \<open>
  The values the two adapters handle are what \<^verbatim>\<open>JSON.parse\<close> produces, plus
  \<^verbatim>\<open>undefined\<close> (the value of a missing property). An object is its list of own
  properties in insertion order, with distinct keys. Numbers are the integers; the adapters
  build only integer numbers themselves (the error codes and the request identifier) and
  pass every other number through untouched.
\<close>

datatype jsval =
    JUndefined
  | JNull
  | JBool bool
  | JNum int
  | JStr string
  | JArr "jsval list"
  | JObj "(string \<times> jsval) list"

text \<open>
  What a \<^verbatim>\<open>throw\<close> (or a rejected promise) carries: an instance of \<^verbatim>\<open>Error\<close> with its
  message, a \<^verbatim>\<open>TypeError\<close> of the engine (also an instance of \<^verbatim>\<open>Error\<close>) with its
  message, or any other value.
\<close>

datatype thrown = Error string | TypeError string | Thrown jsval

text \<open>
  The built-ins of the JavaScript engine that the source calls are parameters of the model:
  \<^verbatim>\<open>JSON.parse\<close> (\<open>None\<close> when it throws a SyntaxError), \<^verbatim>\<open>JSON.stringify\<close> (applied to
  object literals only, where it returns a string), the decimal rendering of a number in a
  template literal, and the texts of the engine's two TypeErrors.
\<close>

record platform =
  JSON_parse :: "string \<Rightarrow> jsval option"
  JSON_stringify :: "jsval \<Rightarrow> string"
  Number_toString :: "int \<Rightarrow> string"
  msg_read_property :: "jsval \<Rightarrow> string \<Rightarrow> string"
  msg_to_primitive :: string

text \<open>
  Reading a property \<^verbatim>\<open>v.k\<close>: a TypeError on \<^verbatim>\<open>undefined\<close> and \<^verbatim>\<open>null\<close>, the own property
  of an object, \<^verbatim>\<open>undefined\<close> otherwise. The names the source reads (\<^verbatim>\<open>jsonrpc\<close>, \<^verbatim>\<open>method\<close>,
  \<^verbatim>\<open>id\<close>, \<^verbatim>\<open>params\<close>, \<^verbatim>\<open>name\<close>, \<^verbatim>\<open>arguments\<close>, \<^verbatim>\<open>uri\<close>, \<^verbatim>\<open>error\<close>, \<^verbatim>\<open>result\<close>, \<^verbatim>\<open>code\<close>,
  \<^verbatim>\<open>message\<close>) are on no prototype of a parsed value.
\<close>

definition get_prop :: "platform \<Rightarrow> jsval \<Rightarrow> string \<Rightarrow> thrown + jsval" where
  "get_prop P v k =
     (case v of
        JUndefined \<Rightarrow> Inl (TypeError (msg_read_property P v k))
      | JNull \<Rightarrow> Inl (TypeError (msg_read_property P v k))
      | JObj kvs \<Rightarrow> Inr (case map_of kvs k of None \<Rightarrow> JUndefined | Some x \<Rightarrow> x)
      | _ \<Rightarrow> Inr JUndefined)"

text \<open>Truthiness, as \<^verbatim>\<open>!v\<close> and \<^verbatim>\<open>if (v)\<close> test it.\<close>

fun truthy :: "jsval \<Rightarrow> bool" where
  "truthy JUndefined = False"
| "truthy JNull = False"
| "truthy (JBool b) = b"
| "truthy (JNum n) = (n \<noteq> 0)"
| "truthy (JStr s) = (s \<noteq> [])"
| "truthy (JArr xs) = True"
| "truthy (JObj kvs) = True"

text \<open>The operator \<^verbatim>\<open>v ?? d\<close>.\<close>

definition nullish_or :: "jsval \<Rightarrow> jsval \<Rightarrow> jsval" where
  "nullish_or v d = (if v = JUndefined \<or> v = JNull then d else v)"

text \<open>\<^verbatim>\<open>Array.prototype.join\<close> with the default separator.\<close>

fun join_comma :: "string list \<Rightarrow> string" where
  "join_comma [] = []"
| "join_comma [s] = s"
| "join_comma (s # t # ts) = s @ '','' @ join_comma (t # ts)"

fun first_thrown :: "(thrown + 'a) list \<Rightarrow> thrown + 'a list" where
  "first_thrown [] = Inr []"
| "first_thrown (Inl e # rs) = Inl e"
| "first_thrown (Inr x # rs) = (case first_thrown rs of Inl e \<Rightarrow> Inl e | Inr xs \<Rightarrow> Inr (x # xs))"

text \<open>
  The conversion to a string that a template literal applies to \<^verbatim>\<open>${v}\<close>. A parsed object
  prints as \<^verbatim>\<open>[object Object]\<close> unless it has an own property \<^verbatim>\<open>toString\<close>, which no
  parsed value can make callable: then the conversion throws a TypeError. An array joins
  its elements, \<^verbatim>\<open>null\<close> and \<^verbatim>\<open>undefined\<close> printing as the empty string.
\<close>

fun js_to_string :: "platform \<Rightarrow> jsval \<Rightarrow> thrown + string" where
  "js_to_string P JUndefined = Inr ''undefined''"
| "js_to_string P JNull = Inr ''null''"
| "js_to_string P (JBool b) = Inr (if b then ''true'' else ''false'')"
| "js_to_string P (JNum n) = Inr (Number_toString P n)"
| "js_to_string P (JStr s) = Inr s"
| "js_to_string P (JArr xs) =
     (case first_thrown
        (map (\<lambda>x. if x = JUndefined \<or> x = JNull then Inr [] else js_to_string P x) xs) of
        Inl e \<Rightarrow> Inl e
      | Inr ss \<Rightarrow> Inr (join_comma ss))"
| "js_to_string P (JObj kvs) =
     (if ''toString'' \<in> fst ` set kvs then Inl (TypeError (msg_to_primitive P))
      else Inr ''[object Object]'')"

section \<open>The HTTP Receiver (HTTPAdapter)\<close>

text \<open>
  The router is an external collaborator, known by its interface only, so it is a parameter
  of the model: each of its nine operations returns a value or fails, the two subscription
  operations returning nothing.
\<close>

record router =
  initialize :: "jsval \<Rightarrow> thrown + jsval"
  listTools :: "thrown + jsval"
  callTool :: "jsval \<Rightarrow> jsval \<Rightarrow> thrown + jsval"
  listResources :: "thrown + jsval"
  readResource :: "jsval \<Rightarrow> thrown + jsval"
  subscribeToResource :: "jsval \<Rightarrow> thrown + unit"
  unsubscribeFromResource :: "jsval \<Rightarrow> thrown + unit"
  listPrompts :: "thrown + jsval"
  getPrompt :: "jsval \<Rightarrow> jsval \<Rightarrow> thrown + jsval"

text \<open>
  What \<^verbatim>\<open>handle\<close> does to the outside, in order: a header set on the response, its status
  code assigned, the response ended (with a body or without), a router operation invoked
  with its arguments.
\<close>

datatype res_event =
    SetHeader string string
  | SetStatus int
  | ResEnd "string option"
  | RouterCall string "jsval list"

fun is_RouterCall :: "res_event \<Rightarrow> bool" where
  "is_RouterCall (RouterCall opn args) = True"
| "is_RouterCall ev = False"

fun is_ResEnd :: "res_event \<Rightarrow> bool" where
  "is_ResEnd (ResEnd b) = True"
| "is_ResEnd ev = False"

fun is_SetStatus :: "res_event \<Rightarrow> bool" where
  "is_SetStatus (SetStatus c) = True"
| "is_SetStatus ev = False"

text \<open>
  The incoming request: its URL, its HTTP method and the chunks of its body, each already
  decoded by \<^verbatim>\<open>chunk.toString()\<close>. The request stream is taken to end.
\<close>

record request =
  url :: string
  http_method :: string
  chunks :: "string list"

record HTTPAdapterOptions =
  opt_router :: router
  opt_path :: "string option"
  opt_cors :: "bool option"

record HTTPAdapter =
  router :: router
  path :: string
  cors :: bool

definition new_HTTPAdapter :: "HTTPAdapterOptions \<Rightarrow> HTTPAdapter" where
  "new_HTTPAdapter options =
     \<lparr>router = opt_router options,
      path = (case opt_path options of
                None \<Rightarrow> ''/mcp/http''
              | Some p \<Rightarrow> if p = [] then ''/mcp/http'' else p),
      cors = (case opt_cors options of None \<Rightarrow> True | Some c \<Rightarrow> c)\<rparr>"

definition setCORSHeaders :: "HTTPAdapter \<Rightarrow> res_event list" where
  "setCORSHeaders A =
     (if cors A then
        [SetHeader ''Access-Control-Allow-Origin'' ''*'',
         SetHeader ''Access-Control-Allow-Methods'' ''POST, OPTIONS'',
         SetHeader ''Access-Control-Allow-Headers'' ''Content-Type'']
      else [])"

definition sendJSON :: "platform \<Rightarrow> int \<Rightarrow> jsval \<Rightarrow> res_event list" where
  "sendJSON P statusCode data =
     [SetStatus statusCode,
      SetHeader ''Content-Type'' ''application/json'',
      ResEnd (Some (JSON_stringify P data))]"

definition sendError :: "platform \<Rightarrow> jsval \<Rightarrow> int \<Rightarrow> string \<Rightarrow> jsval \<Rightarrow> res_event list" where
  "sendError P ident code message data =
     sendJSON P 200
       (JObj [(''jsonrpc'', JStr ''2.0''),
              (''id'', ident),
              (''error'', JObj [(''code'', JNum code),
                               (''message'', JStr message),
                               (''data'', data)])])"

text \<open>
  \<^verbatim>\<open>handleMethod\<close>: the \<^verbatim>\<open>switch\<close> compares with \<^verbatim>\<open>===\<close>, so only a string selects a
  case. The result comes with the router operations invoked on the way.
\<close>

definition handleMethod ::
  "platform \<Rightarrow> router \<Rightarrow> jsval \<Rightarrow> jsval \<Rightarrow> (thrown + jsval) \<times> res_event list" where
  "handleMethod P R m params =
     (if m = JStr ''initialize'' then
        (initialize R params, [RouterCall ''initialize'' [params]])
      else if m = JStr ''tools/list'' then
        (case listTools R of
           Inl e \<Rightarrow> (Inl e, [RouterCall ''listTools'' []])
         | Inr v \<Rightarrow> (Inr (JObj [(''tools'', v)]), [RouterCall ''listTools'' []]))
      else if m = JStr ''tools/call'' then
        (case get_prop P params ''name'' of
           Inl e \<Rightarrow> (Inl e, [])
         | Inr n \<Rightarrow>
             (case get_prop P params ''arguments'' of
                Inl e \<Rightarrow> (Inl e, [])
              | Inr a \<Rightarrow> (callTool R n a, [RouterCall ''callTool'' [n, a]])))
      else if m = JStr ''resources/list'' then
        (case listResources R of
           Inl e \<Rightarrow> (Inl e, [RouterCall ''listResources'' []])
         | Inr v \<Rightarrow> (Inr (JObj [(''resources'', v)]), [RouterCall ''listResources'' []]))
      else if m = JStr ''resources/read'' then
        (case get_prop P params ''uri'' of
           Inl e \<Rightarrow> (Inl e, [])
         | Inr u \<Rightarrow>
             (case readResource R u of
                Inl e \<Rightarrow> (Inl e, [RouterCall ''readResource'' [u]])
              | Inr v \<Rightarrow> (Inr (JObj [(''contents'', v)]), [RouterCall ''readResource'' [u]])))
      else if m = JStr ''resources/subscribe'' then
        (case get_prop P params ''uri'' of
           Inl e \<Rightarrow> (Inl e, [])
         | Inr u \<Rightarrow>
             (case subscribeToResource R u of
                Inl e \<Rightarrow> (Inl e, [RouterCall ''subscribeToResource'' [u]])
              | Inr _ \<Rightarrow> (Inr (JObj []), [RouterCall ''subscribeToResource'' [u]])))
      else if m = JStr ''resources/unsubscribe'' then
        (case get_prop P params ''uri'' of
           Inl e \<Rightarrow> (Inl e, [])
         | Inr u \<Rightarrow>
             (case unsubscribeFromResource R u of
                Inl e \<Rightarrow> (Inl e, [RouterCall ''unsubscribeFromResource'' [u]])
              | Inr _ \<Rightarrow> (Inr (JObj []), [RouterCall ''unsubscribeFromResource'' [u]])))
      else if m = JStr ''prompts/list'' then
        (case listPrompts R of
           Inl e \<Rightarrow> (Inl e, [RouterCall ''listPrompts'' []])
         | Inr v \<Rightarrow> (Inr (JObj [(''prompts'', v)]), [RouterCall ''listPrompts'' []]))
      else if m = JStr ''prompts/get'' then
        (case get_prop P params ''name'' of
           Inl e \<Rightarrow> (Inl e, [])
         | Inr n \<Rightarrow>
             (case get_prop P params ''arguments'' of
                Inl e \<Rightarrow> (Inl e, [])
              | Inr a \<Rightarrow>
                  (case getPrompt R n a of
                     Inl e \<Rightarrow> (Inl e, [RouterCall ''getPrompt'' [n, a]])
                   | Inr v \<Rightarrow> (Inr (JObj [(''messages'', v)]), [RouterCall ''getPrompt'' [n, a]]))))
      else
        (case js_to_string P m of
           Inl e \<Rightarrow> (Inl e, [])
         | Inr s \<Rightarrow> (Inl (Error (''Method not found: '' @ s)), [])))"

text \<open>
  The \<^verbatim>\<open>catch\<close> of \<^verbatim>\<open>handle\<close>:
  \<^verbatim>\<open>error instanceof Error ? error.message : 'Unknown error'\<close>.
\<close>

fun errorMessage :: "thrown \<Rightarrow> string" where
  "errorMessage (Error msg) = msg"
| "errorMessage (TypeError msg) = msg"
| "errorMessage (Thrown v) = ''Unknown error''"

text \<open>The expression \<^verbatim>\<open>jsonrpcRequest.id ?? null\<close>.\<close>

definition request_id :: "platform \<Rightarrow> jsval \<Rightarrow> thrown + jsval" where
  "request_id P jsonrpcRequest =
     (case get_prop P jsonrpcRequest ''id'' of
        Inl e \<Rightarrow> Inl e
      | Inr ident \<Rightarrow> Inr (nullish_or ident JNull))"

text \<open>
  The test \<^verbatim>\<open>jsonrpcRequest.jsonrpc !== '2.0' || !jsonrpcRequest.method\<close>; the second read
  happens only when the first comparison is false.
\<close>

definition invalid_request :: "platform \<Rightarrow> jsval \<Rightarrow> thrown + bool" where
  "invalid_request P jsonrpcRequest =
     (case get_prop P jsonrpcRequest ''jsonrpc'' of
        Inl e \<Rightarrow> Inl e
      | Inr version \<Rightarrow>
          if version \<noteq> JStr ''2.0'' then Inr True
          else (case get_prop P jsonrpcRequest ''method'' of
                  Inl e \<Rightarrow> Inl e
                | Inr m \<Rightarrow> Inr (\<not> truthy m)))"

text \<open>
  The \<^verbatim>\<open>try\<close> block of \<^verbatim>\<open>handle\<close> and its \<^verbatim>\<open>catch\<close>: the dispatch, then the success
  envelope or the error envelope of code \<open>-32603\<close>.
\<close>

definition dispatch :: "platform \<Rightarrow> HTTPAdapter \<Rightarrow> jsval \<Rightarrow> (thrown + bool) \<times> res_event list" where
  "dispatch P A jsonrpcRequest =
     (case get_prop P jsonrpcRequest ''method'' of
        Inl e \<Rightarrow> (Inl e, [])
      | Inr m \<Rightarrow>
          (case get_prop P jsonrpcRequest ''params'' of
             Inl e \<Rightarrow> (Inl e, [])
           | Inr params \<Rightarrow>
               (case handleMethod P (router A) m params of
                  (Inr result, calls) \<Rightarrow>
                    (case request_id P jsonrpcRequest of
                       Inl e \<Rightarrow> (Inl e, calls)
                     | Inr ident \<Rightarrow>
                         (Inr True,
                          calls @
                          sendJSON P 200
                            (JObj [(''jsonrpc'', JStr ''2.0''),
                                   (''id'', ident),
                                   (''result'', result)])))
                | (Inl error, calls) \<Rightarrow>
                    (case request_id P jsonrpcRequest of
                       Inl e \<Rightarrow> (Inl e, calls)
                     | Inr ident \<Rightarrow>
                         (Inr True,
                          calls @
                          sendError P ident (- 32603) ''Internal error''
                            (JStr (errorMessage error)))))))"

text \<open>
  \<^verbatim>\<open>handle\<close> returns what the promise settles to (\<open>Inl\<close>: it rejects, \<open>Inr b\<close>: it resolves
  to \<open>b\<close>) and the events in the order they happened. The property reads of the validation
  stand outside every \<^verbatim>\<open>try\<close>, so what they throw leaves \<^verbatim>\<open>handle\<close>.
\<close>

definition handle :: "platform \<Rightarrow> HTTPAdapter \<Rightarrow> request \<Rightarrow> (thrown + bool) \<times> res_event list" where
  "handle P A req =
     (if url req \<noteq> path A then (Inr False, [])
      else if http_method req = ''OPTIONS'' then
        (Inr True, setCORSHeaders A @ [SetStatus 204, ResEnd None])
      else if http_method req \<noteq> ''POST'' then
        (Inr True,
         setCORSHeaders A @
         sendError P JNull (- 32600) ''Invalid Request: Only POST is supported'' JUndefined)
      else
        (case JSON_parse P (concat (chunks req)) of
           None \<Rightarrow>
             (Inr True, setCORSHeaders A @ sendError P JNull (- 32700) ''Parse error'' JUndefined)
         | Some jsonrpcRequest \<Rightarrow>
             (case invalid_request P jsonrpcRequest of
                Inl e \<Rightarrow> (Inl e, setCORSHeaders A)
              | Inr invalid \<Rightarrow>
                  if invalid then
                    (case request_id P jsonrpcRequest of
                       Inl e \<Rightarrow> (Inl e, setCORSHeaders A)
                     | Inr ident \<Rightarrow>
                         (Inr True,
                          setCORSHeaders A @
                          sendError P ident (- 32600) ''Invalid Request'' JUndefined))
                  else
                    (case dispatch P A jsonrpcRequest of
                       (r, evs) \<Rightarrow> (r, setCORSHeaders A @ evs)))))"

text \<open>\<^verbatim>\<open>createHandler\<close>: the wrapper that answers 404 when \<^verbatim>\<open>handle\<close> reports unhandled.\<close>

definition createHandler :: "platform \<Rightarrow> HTTPAdapter \<Rightarrow> request \<Rightarrow> (thrown + unit) \<times> res_event list" where
  "createHandler P A req =
     (case handle P A req of
        (Inl e, evs) \<Rightarrow> (Inl e, evs)
      | (Inr handled, evs) \<Rightarrow>
          if handled then (Inr (), evs)
          else (Inr (), evs @ [SetStatus 404, ResEnd (Some ''Not Found'')]))"

section \<open>The Stdio Forwarder (HTTPMCPClient)\<close>

text \<open>
  The object passed to \<^verbatim>\<open>fetch\<close>, and what \<^verbatim>\<open>fetch\<close> settles to: a rejection, or a
  response with its status and with what \<^verbatim>\<open>response.json()\<close> settles to. The flag
  \<^verbatim>\<open>response.ok\<close> is the status being in the range 200 to 299.
\<close>

type_synonym headers = "(string \<times> string) list"

record fetch_init =
  init_method :: string
  init_headers :: headers
  init_body :: string

record response =
  status :: int
  json :: "thrown + jsval"

definition ok :: "response \<Rightarrow> bool" where
  "ok r = (200 \<le> status r \<and> status r \<le> 299)"

datatype fetch_outcome = Rejects thrown | Resolves response

type_synonym fetch = "string \<Rightarrow> fetch_init \<Rightarrow> fetch_outcome"

text \<open>
  What the forwarder does to the outside: a call of \<^verbatim>\<open>fetch\<close>, an invocation of the error
  callback with its two arguments, a logging notification sent on the stream-framed server.
\<close>

datatype client_event =
    Fetch string fetch_init
  | OnError string thrown
  | SendLoggingMessage string string

fun is_OnError :: "client_event \<Rightarrow> bool" where
  "is_OnError (OnError name e) = True"
| "is_OnError ev = False"

fun is_Fetch :: "client_event \<Rightarrow> bool" where
  "is_Fetch (Fetch u i) = True"
| "is_Fetch ev = False"

text \<open>
  A callback given by the caller returns or throws (\<open>Some\<close>). In the options of the
  constructor the key \<^verbatim>\<open>onError\<close> is absent, present with the value \<^verbatim>\<open>undefined\<close>,
  or present with a function; the spread \<^verbatim>\<open>{ onError: ..., ...options }\<close> keeps the default
  logger only when the key is absent.
\<close>

type_synonym callback = "string \<Rightarrow> thrown \<Rightarrow> thrown option"

datatype onError_option = OnErrorAbsent | OnErrorUndefined | OnErrorGiven callback

datatype onError_fn = DefaultOnError | GivenOnError callback

record HTTPMCPClientOptions =
  opt_remoteUrl :: string
  opt_headers :: "headers option"
  opt_onError :: onError_option

record HTTPMCPClient =
  remoteUrl :: string
  headers :: "headers option"
  onError :: "onError_fn option"
  requestId :: nat

definition new_HTTPMCPClient :: "HTTPMCPClientOptions \<Rightarrow> HTTPMCPClient" where
  "new_HTTPMCPClient options =
     \<lparr>remoteUrl = opt_remoteUrl options,
      headers = opt_headers options,
      onError = (case opt_onError options of
                   OnErrorAbsent \<Rightarrow> Some DefaultOnError
                 | OnErrorUndefined \<Rightarrow> None
                 | OnErrorGiven f \<Rightarrow> Some (GivenOnError f)),
      requestId = 0\<rparr>"

text \<open>
  \<^verbatim>\<open>++this.requestId\<close>: the counter is a Number, that is an IEEE double. From 0 it runs
  through the integers; adding 1 is exact below \<open>2^53\<close>, and at \<open>2^53\<close> the sum
  \<open>2^53 + 1\<close> is no double and rounds (ties to even) back to \<open>2^53\<close>.
\<close>

definition js_increment :: "nat \<Rightarrow> nat" where
  "js_increment n = (if n < 2 ^ 53 then n + 1 else n)"

text \<open>
  The order in which an object lists its own properties: first the keys that are array
  indices (the decimal numeral, without leading zero, of an integer from 0 to \<open>2^32 - 2\<close>)
  by ascending value, then every other key in the order of insertion.
\<close>

definition is_digit :: "char \<Rightarrow> bool" where
  "is_digit c = (c \<in> set ''0123456789'')"

definition digit_value :: "char \<Rightarrow> nat" where
  "digit_value c =
     (case map_of (zip ''0123456789'' [0, 1, 2, 3, 4, 5, 6, 7, 8, 9]) c of
        None \<Rightarrow> 0
      | Some d \<Rightarrow> d)"

definition decimal_value :: "string \<Rightarrow> nat" where
  "decimal_value k = foldl (\<lambda>n c. 10 * n + digit_value c) 0 k"

definition is_array_index :: "string \<Rightarrow> bool" where
  "is_array_index k =
     (k \<noteq> [] \<and> list_all is_digit k \<and> (k = ''0'' \<or> hd k \<noteq> CHR ''0'') \<and>
      decimal_value k < 2 ^ 32 - 1)"

definition own_property_order :: "(string \<times> 'a) list \<Rightarrow> (string \<times> 'a) list" where
  "own_property_order ps =
     sort_key (\<lambda>kv. decimal_value (fst kv)) (filter (\<lambda>kv. is_array_index (fst kv)) ps) @
     filter (\<lambda>kv. \<not> is_array_index (fst kv)) ps"

text \<open>
  The object spread \<^verbatim>\<open>{ ...base, ...src }\<close>: each property of \<open>src\<close>, in order, replaces
  the value of a key already there (which keeps its place) or is added at the end; the
  resulting object lists its properties in the order above.
\<close>

definition obj_spread :: "(string \<times> 'a) list \<Rightarrow> (string \<times> 'a) list \<Rightarrow> (string \<times> 'a) list" where
  "obj_spread base src =
     own_property_order (foldl (\<lambda>acc kv. AList.update (fst kv) (snd kv) acc) base src)"

definition jsonrpc_request :: "nat \<Rightarrow> string \<Rightarrow> jsval \<Rightarrow> jsval" where
  "jsonrpc_request ident name params =
     JObj [(''jsonrpc'', JStr ''2.0''),
           (''id'', JNum (int ident)),
           (''method'', JStr name),
           (''params'', params)]"

definition request_init :: "platform \<Rightarrow> headers option \<Rightarrow> jsval \<Rightarrow> fetch_init" where
  "request_init P hs request =
     \<lparr>init_method = ''POST'',
      init_headers =
        obj_spread [(''Content-Type'', ''application/json'')]
          (case hs of None \<Rightarrow> [] | Some h \<Rightarrow> h),
      init_body = JSON_stringify P request\<rparr>"

text \<open>
  The configured static headers (none when the option is absent), and the second argument
  of \<^verbatim>\<open>fetch\<close> for a call of \<^verbatim>\<open>sendRequest\<close> on the client \<open>C\<close>.
\<close>

definition configured :: "HTTPMCPClient \<Rightarrow> headers" where
  "configured C = (case headers C of None \<Rightarrow> [] | Some h \<Rightarrow> h)"

definition outgoing :: "platform \<Rightarrow> HTTPMCPClient \<Rightarrow> string \<Rightarrow> jsval \<Rightarrow> fetch_init" where
  "outgoing P C name params =
     request_init P (headers C) (jsonrpc_request (js_increment (requestId C)) name params)"

text \<open>
  What \<^verbatim>\<open>fetch\<close> makes of the headers object, after the Fetch standard: it appends the
  properties in order to the header list of the request, each value stripped of leading and
  trailing HTTP whitespace; header names are compared without regard to the case of ASCII
  letters, and the values appended under one name are sent combined, separated by a comma
  and a space. So \<open>sent_header hs name\<close> is the value of the header \<open>name\<close> in the request
  built from \<open>hs\<close> (\<open>None\<close>: no such header). An object with a name that is no token, or a
  value that holds a NUL, CR or LF, is refused by \<^verbatim>\<open>fetch\<close>, which then rejects.
\<close>

definition ascii_lower :: "char \<Rightarrow> char" where
  "ascii_lower c =
     (case map_of (zip ''ABCDEFGHIJKLMNOPQRSTUVWXYZ'' ''abcdefghijklmnopqrstuvwxyz'') c of
        None \<Rightarrow> c
      | Some l \<Rightarrow> l)"

definition same_header_name :: "string \<Rightarrow> string \<Rightarrow> bool" where
  "same_header_name a b = (map ascii_lower a = map ascii_lower b)"

definition http_whitespace :: "char \<Rightarrow> bool" where
  "http_whitespace c = (c = CHR 0x09 \<or> c = CHR 0x0A \<or> c = CHR 0x0D \<or> c = CHR 0x20)"

definition normalize_value :: "string \<Rightarrow> string" where
  "normalize_value v = rev (dropWhile http_whitespace (rev (dropWhile http_whitespace v)))"

fun combine_values :: "string list \<Rightarrow> string" where
  "combine_values [] = []"
| "combine_values [v] = v"
| "combine_values (v # w # ws) = v @ '', '' @ combine_values (w # ws)"

definition sent_header :: "headers \<Rightarrow> string \<Rightarrow> string option" where
  "sent_header hs name =
     (case filter (\<lambda>kv. same_header_name (fst kv) name) hs of
        [] \<Rightarrow> None
      | kvs \<Rightarrow> Some (combine_values (map (\<lambda>kv. normalize_value (snd kv)) kvs)))"

text \<open>
  The end of \<^verbatim>\<open>sendRequest\<close>, from \<^verbatim>\<open>if (jsonResponse.error)\<close> on: an error thrown with
  the remote code and message in its message, or the \<^verbatim>\<open>result\<close> property.
\<close>

definition unwrap_response :: "platform \<Rightarrow> jsval \<Rightarrow> thrown + jsval" where
  "unwrap_response P jsonResponse =
     (case get_prop P jsonResponse ''error'' of
        Inl e \<Rightarrow> Inl e
      | Inr err \<Rightarrow>
          if truthy err then
            (case get_prop P err ''code'' of
               Inl e \<Rightarrow> Inl e
             | Inr c \<Rightarrow>
                 (case js_to_string P c of
                    Inl e \<Rightarrow> Inl e
                  | Inr cs \<Rightarrow>
                      (case get_prop P err ''message'' of
                         Inl e \<Rightarrow> Inl e
                       | Inr m \<Rightarrow>
                           (case js_to_string P m of
                              Inl e \<Rightarrow> Inl e
                            | Inr ms \<Rightarrow> Inl (Error (''JSON-RPC error '' @ cs @ '': '' @ ms))))))
          else get_prop P jsonResponse ''result'')"

text \<open>
  \<^verbatim>\<open>sendRequest\<close> returns what its promise settles to, the client with its counter
  advanced, and the events.
\<close>

definition sendRequest ::
  "platform \<Rightarrow> fetch \<Rightarrow> HTTPMCPClient \<Rightarrow> string \<Rightarrow> jsval \<Rightarrow>
     (thrown + jsval) \<times> HTTPMCPClient \<times> client_event list" where
  "sendRequest P net C name params =
     (let C' = C\<lparr>requestId := js_increment (requestId C)\<rparr>;
          request = jsonrpc_request (requestId C') name params;
          init = request_init P (headers C') request;
          evs = [Fetch (remoteUrl C') init]
      in case net (remoteUrl C') init of
           Rejects e \<Rightarrow> (Inl e, C', evs)
         | Resolves response \<Rightarrow>
             if \<not> ok response then
               (Inl (Error (''HTTP error! status: '' @ Number_toString P (status response))),
                C', evs)
             else
               (case json response of
                  Inl e \<Rightarrow> (Inl e, C', evs)
                | Inr jsonResponse \<Rightarrow> (unwrap_response P jsonResponse, C', evs)))"

text \<open>
  The inbound request of the stream-framed server, and the error callback at work. The
  default callback sends a logging notification whose text is
  \<^verbatim>\<open>${method}: ${error.message}\<close>; the promise it gets back is not awaited.
\<close>

record rpc_request =
  req_method :: string
  req_params :: jsval

definition thrown_message :: "platform \<Rightarrow> thrown \<Rightarrow> thrown + string" where
  "thrown_message P e =
     (case e of
        Error msg \<Rightarrow> Inr msg
      | TypeError msg \<Rightarrow> Inr msg
      | Thrown v \<Rightarrow>
          (case get_prop P v ''message'' of
             Inl t \<Rightarrow> Inl t
           | Inr m \<Rightarrow> js_to_string P m))"

definition call_onError ::
  "platform \<Rightarrow> onError_fn \<Rightarrow> string \<Rightarrow> thrown \<Rightarrow> thrown option \<times> client_event list" where
  "call_onError P f name e =
     (case f of
        GivenOnError cb \<Rightarrow> (cb name e, [OnError name e])
      | DefaultOnError \<Rightarrow>
          (case thrown_message P e of
             Inl t \<Rightarrow> (Some t, [OnError name e])
           | Inr msg \<Rightarrow>
               (None, [OnError name e, SendLoggingMessage ''error'' (name @ '': '' @ msg)])))"

text \<open>
  The body shared by the nine handlers of \<^verbatim>\<open>setupHandlers\<close>, which differ in the method
  name they pass to \<^verbatim>\<open>sendRequest\<close> only:
  \<^verbatim>\<open>try { return await this.sendRequest(name, request.params) }
  catch (error) { this.options.onError?.(request.method, error); throw error }\<close>.
\<close>

type_synonym handler =
  "HTTPMCPClient \<Rightarrow> rpc_request \<Rightarrow> (thrown + jsval) \<times> HTTPMCPClient \<times> client_event list"

definition forward :: "platform \<Rightarrow> fetch \<Rightarrow> string \<Rightarrow> handler" where
  "forward P net name C request =
     (case sendRequest P net C name (req_params request) of
        (Inr result, C', evs) \<Rightarrow> (Inr result, C', evs)
      | (Inl error, C', evs) \<Rightarrow>
          (case onError C' of
             None \<Rightarrow> (Inl error, C', evs)
           | Some f \<Rightarrow>
               (case call_onError P f (req_method request) error of
                  (Some t, cevs) \<Rightarrow> (Inl t, C', evs @ cevs)
                | (None, cevs) \<Rightarrow> (Inl error, C', evs @ cevs))))"

datatype schema =
    InitializeRequestSchema
  | ListToolsRequestSchema
  | CallToolRequestSchema
  | ListResourcesRequestSchema
  | ReadResourceRequestSchema
  | SubscribeRequestSchema
  | UnsubscribeRequestSchema
  | ListPromptsRequestSchema
  | GetPromptRequestSchema

definition setupHandlers :: "platform \<Rightarrow> fetch \<Rightarrow> (schema \<times> handler) list" where
  "setupHandlers P net =
     [(InitializeRequestSchema, forward P net ''initialize''),
      (ListToolsRequestSchema, forward P net ''tools/list''),
      (CallToolRequestSchema, forward P net ''tools/call''),
      (ListResourcesRequestSchema, forward P net ''resources/list''),
      (ReadResourceRequestSchema, forward P net ''resources/read''),
      (SubscribeRequestSchema, forward P net ''resources/subscribe''),
      (UnsubscribeRequestSchema, forward P net ''resources/unsubscribe''),
      (ListPromptsRequestSchema, forward P net ''prompts/list''),
      (GetPromptRequestSchema, forward P net ''prompts/get'')]"

text \<open>
  Successive calls of \<^verbatim>\<open>sendRequest\<close> on one forwarder, each with its own network
  behaviour: the forwarder after them.
\<close>

fun client_after ::
  "platform \<Rightarrow> HTTPMCPClient \<Rightarrow> (fetch \<times> string \<times> jsval) list \<Rightarrow> HTTPMCPClient" where
  "client_after P C [] = C"
| "client_after P C (c # cs) =
     client_after P (fst (snd (sendRequest P (fst c) C (fst (snd c)) (snd (snd c))))) cs"

section \<open>The Method Descriptor table of the specification\<close>

text \<open>
  Written from the table of the specification (method, router operation, result envelope),
  not from the source, to compare \<^verbatim>\<open>handleMethod\<close> with: the nine method names; the
  property \<^verbatim>\<open>params.k\<close> of parameters that are an object; the outcome of the router
  operation of a method; its invocation as an event; and the envelope around its return value.
\<close>

definition known_methods :: "string list" where
  "known_methods =
     [''initialize'', ''tools/list'', ''tools/call'', ''resources/list'', ''resources/read'',
      ''resources/subscribe'', ''resources/unsubscribe'', ''prompts/list'', ''prompts/get'']"

definition param_field :: "jsval \<Rightarrow> string \<Rightarrow> jsval" where
  "param_field params k =
     (case params of
        JObj kvs \<Rightarrow> (case map_of kvs k of None \<Rightarrow> JUndefined | Some x \<Rightarrow> x)
      | _ \<Rightarrow> JUndefined)"

definition returns_nothing :: "thrown + unit \<Rightarrow> thrown + jsval" where
  "returns_nothing r = (case r of Inl e \<Rightarrow> Inl e | Inr u \<Rightarrow> Inr JUndefined)"

definition table_operation :: "router \<Rightarrow> string \<Rightarrow> jsval \<Rightarrow> thrown + jsval" where
  "table_operation R name params =
     (if name = ''initialize'' then initialize R params
      else if name = ''tools/list'' then listTools R
      else if name = ''tools/call'' then
        callTool R (param_field params ''name'') (param_field params ''arguments'')
      else if name = ''resources/list'' then listResources R
      else if name = ''resources/read'' then readResource R (param_field params ''uri'')
      else if name = ''resources/subscribe'' then
        returns_nothing (subscribeToResource R (param_field params ''uri''))
      else if name = ''resources/unsubscribe'' then
        returns_nothing (unsubscribeFromResource R (param_field params ''uri''))
      else if name = ''prompts/list'' then listPrompts R
      else if name = ''prompts/get'' then
        getPrompt R (param_field params ''name'') (param_field params ''arguments'')
      else Inl (Error (''Method not found: '' @ name)))"

definition table_call :: "string \<Rightarrow> jsval \<Rightarrow> res_event list" where
  "table_call name params =
     (if name = ''initialize'' then [RouterCall ''initialize'' [params]]
      else if name = ''tools/list'' then [RouterCall ''listTools'' []]
      else if name = ''tools/call'' then
        [RouterCall ''callTool'' [param_field params ''name'', param_field params ''arguments'']]
      else if name = ''resources/list'' then [RouterCall ''listResources'' []]
      else if name = ''resources/read'' then
        [RouterCall ''readResource'' [param_field params ''uri'']]
      else if name = ''resources/subscribe'' then
        [RouterCall ''subscribeToResource'' [param_field params ''uri'']]
      else if name = ''resources/unsubscribe'' then
        [RouterCall ''unsubscribeFromResource'' [param_field params ''uri'']]
      else if name = ''prompts/list'' then [RouterCall ''listPrompts'' []]
      else if name = ''prompts/get'' then
        [RouterCall ''getPrompt'' [param_field params ''name'', param_field params ''arguments'']]
      else [])"

definition table_envelope :: "string \<Rightarrow> jsval \<Rightarrow> jsval" where
  "table_envelope name v =
     (if name = ''initialize'' \<or> name = ''tools/call'' then v
      else if name = ''tools/list'' then JObj [(''tools'', v)]
      else if name = ''resources/list'' then JObj [(''resources'', v)]
      else if name = ''resources/read'' then JObj [(''contents'', v)]
      else if name = ''prompts/list'' then JObj [(''prompts'', v)]
      else if name = ''prompts/get'' then JObj [(''messages'', v)]
      else JObj [])"

text \<open>The identifier of a response: the request's \<^verbatim>\<open>id\<close>, or \<^verbatim>\<open>null\<close> if absent.\<close>

definition response_id :: "(string \<times> jsval) list \<Rightarrow> jsval" where
  "response_id kvs = (case map_of kvs ''id'' of None \<Rightarrow> JNull | Some i \<Rightarrow> i)"

text \<open>
  Parameters are valid for a method when the method reads none of their properties or
  they are neither \<^verbatim>\<open>undefined\<close> nor \<^verbatim>\<open>null\<close>.
\<close>

definition valid_params :: "string \<Rightarrow> jsval \<Rightarrow> bool" where
  "valid_params name params =
     (if name \<in> {''tools/call'', ''resources/read'', ''resources/subscribe'',
                  ''resources/unsubscribe'', ''prompts/get''}
      then params \<noteq> JUndefined \<and> params \<noteq> JNull
      else True)"

text \<open>
  The method literal each request schema of the protocol library matches, after the same
  table: the stream-framed server hands a request to the handler registered for the schema
  of the request's method.
\<close>

fun schema_method :: "schema \<Rightarrow> string" where
  "schema_method InitializeRequestSchema = ''initialize''"
| "schema_method ListToolsRequestSchema = ''tools/list''"
| "schema_method CallToolRequestSchema = ''tools/call''"
| "schema_method ListResourcesRequestSchema = ''resources/list''"
| "schema_method ReadResourceRequestSchema = ''resources/read''"
| "schema_method SubscribeRequestSchema = ''resources/subscribe''"
| "schema_method UnsubscribeRequestSchema = ''resources/unsubscribe''"
| "schema_method ListPromptsRequestSchema = ''prompts/list''"
| "schema_method GetPromptRequestSchema = ''prompts/get''"

section \<open>A sample platform, router and network\<close>

text \<open>
  The concrete runs below need an engine, a router and a remote peer. The sample engine
  prints integers in decimal (as an engine does below \<open>10^21\<close>), writes JSON text as \<^verbatim>\<open>JSON.stringify\<close> does on the values of
  the runs (a property whose value is \<^verbatim>\<open>undefined\<close> is left out), and parses the bodies
  of the runs as \<^verbatim>\<open>JSON.parse\<close> does, every other body counting as malformed.
\<close>

function demo_digits :: "nat \<Rightarrow> string" where
  "demo_digits n =
     (if n < 10 then [''0123456789'' ! n]
      else demo_digits (n div 10) @ [''0123456789'' ! (n mod 10)])"
  by pat_completeness auto
termination
  by (relation "measure id") auto

definition demo_number :: "int \<Rightarrow> string" where
  "demo_number i = (if i < 0 then ''-'' @ demo_digits (nat (- i)) else demo_digits (nat i))"

definition demo_escape :: "char \<Rightarrow> string" where
  "demo_escape c =
     (if c = CHR 0x22 then [CHR 0x5C, CHR 0x22]
      else if c = CHR 0x5C then [CHR 0x5C, CHR 0x5C]
      else if c = CHR 0x0A then [CHR 0x5C, CHR ''n'']
      else [c])"

definition demo_quote :: "string \<Rightarrow> string" where
  "demo_quote s = [CHR 0x22] @ concat (map demo_escape s) @ [CHR 0x22]"

fun demo_stringify :: "jsval \<Rightarrow> string option" where
  "demo_stringify JUndefined = None"
| "demo_stringify JNull = Some ''null''"
| "demo_stringify (JBool b) = Some (if b then ''true'' else ''false'')"
| "demo_stringify (JNum n) = Some (demo_number n)"
| "demo_stringify (JStr s) = Some (demo_quote s)"
| "demo_stringify (JArr xs) =
     Some (''['' @
           join_comma (map (\<lambda>x. case demo_stringify x of None \<Rightarrow> ''null'' | Some t \<Rightarrow> t) xs) @
           '']'')"
| "demo_stringify (JObj kvs) =
     Some (''{'' @
           join_comma
             (concat (map (\<lambda>kv. case demo_stringify (snd kv) of
                                   None \<Rightarrow> []
                                 | Some t \<Rightarrow> [demo_quote (fst kv) @ '':'' @ t]) kvs)) @
           ''}'')"

definition body_tools_list :: string where
  \<open>body_tools_list = ''{"jsonrpc":"2.0","id":1,"method":"tools/list","params":{}}''\<close>

definition body_old_version :: string where
  \<open>body_old_version = ''{"jsonrpc":"1.0","id":2,"method":"x"}''\<close>

definition body_unknown_method :: string where
  \<open>body_unknown_method = ''{"jsonrpc":"2.0","id":7,"method":"nope"}''\<close>

definition body_divide :: string where
  \<open>body_divide = ''{"jsonrpc":"2.0","id":3,"method":"tools/call","params":{"name":"calculator","arguments":{"b":"0"}}}''\<close>

definition body_read :: string where
  \<open>body_read = ''{"jsonrpc":"2.0","id":4,"method":"resources/read","params":{"uri":"file:///x"}}''\<close>

definition demo_parse :: "string \<Rightarrow> jsval option" where
  "demo_parse body =
     (if body = ''null'' then Some JNull
      else if body = body_tools_list then
        Some (JObj [(''jsonrpc'', JStr ''2.0''), (''id'', JNum 1),
                    (''method'', JStr ''tools/list''), (''params'', JObj [])])
      else if body = body_old_version then
        Some (JObj [(''jsonrpc'', JStr ''1.0''), (''id'', JNum 2), (''method'', JStr ''x'')])
      else if body = body_unknown_method then
        Some (JObj [(''jsonrpc'', JStr ''2.0''), (''id'', JNum 7), (''method'', JStr ''nope'')])
      else if body = body_divide then
        Some (JObj [(''jsonrpc'', JStr ''2.0''), (''id'', JNum 3),
                    (''method'', JStr ''tools/call''),
                    (''params'', JObj [(''name'', JStr ''calculator''),
                                      (''arguments'', JObj [(''b'', JStr ''0'')])])])
      else if body = body_read then
        Some (JObj [(''jsonrpc'', JStr ''2.0''), (''id'', JNum 4),
                    (''method'', JStr ''resources/read''),
                    (''params'', JObj [(''uri'', JStr ''file:///x'')])])
      else None)"

definition demo_platform :: platform where
  "demo_platform =
     \<lparr>JSON_parse = demo_parse,
      JSON_stringify = (\<lambda>v. case demo_stringify v of None \<Rightarrow> [] | Some t \<Rightarrow> t),
      Number_toString = demo_number,
      msg_read_property =
        (\<lambda>v k. ''Cannot read properties of '' @ (if v = JNull then ''null'' else ''undefined'') @
               '' (reading '' @ [CHR 0x27] @ k @ [CHR 0x27] @ '')''),
      msg_to_primitive = ''Cannot convert object to primitive value''\<rparr>"

text \<open>The sample router has the one tool of the example server, a calculator.\<close>

definition demo_router :: router where
  "demo_router =
     \<lparr>initialize = (\<lambda>p. Inr (JObj [(''protocolVersion'', JStr ''2024-11-05'')])),
      listTools = Inr (JArr [JObj [(''name'', JStr ''calculator'')]]),
      callTool = (\<lambda>n a. if param_field a ''b'' = JStr ''0'' then Inl (Error ''Division by zero'')
                          else Inr (JObj [(''content'', JArr [])])),
      listResources = Inr (JArr []),
      readResource = (\<lambda>u. Inl (Error ''Resource not found'')),
      subscribeToResource = (\<lambda>u. Inr ()),
      unsubscribeFromResource = (\<lambda>u. Inr ()),
      listPrompts = Inr (JArr []),
      getPrompt = (\<lambda>n a. Inl (Error ''Prompt not found''))\<rparr>"

definition demo_adapter :: HTTPAdapter where
  "demo_adapter =
     new_HTTPAdapter \<lparr>opt_router = demo_router, opt_path = Some ''/mcp/http'', opt_cors = Some True\<rparr>"

text \<open>
  A router whose \<^verbatim>\<open>readResource\<close> throws a plain object, no \<^verbatim>\<open>Error\<close>, that carries a
  message.
\<close>

definition plain_throw_router :: router where
  "plain_throw_router =
     demo_router
       \<lparr>readResource :=
          (\<lambda>u. Inl (Thrown (JObj [(''code'', JNum 404), (''message'', JStr ''boom'')])))\<rparr>"

definition plain_throw_adapter :: HTTPAdapter where
  "plain_throw_adapter =
     new_HTTPAdapter
       \<lparr>opt_router = plain_throw_router, opt_path = Some ''/mcp/http'', opt_cors = Some True\<rparr>"

definition post :: "string \<Rightarrow> string \<Rightarrow> request" where
  "post u body = \<lparr>url = u, http_method = ''POST'', chunks = [body]\<rparr>"

text \<open>
  Three remote peers: one answers every request with a result, one with a JSON-RPC error,
  one with the HTTP status 500.
\<close>

definition net_result :: fetch where
  "net_result u i =
     Resolves \<lparr>status = 200,
               json = Inr (JObj [(''jsonrpc'', JStr ''2.0''), (''id'', JNum 1),
                                (''result'', JObj [(''tools'', JArr [])])])\<rparr>"

definition net_error :: fetch where
  "net_error u i =
     Resolves \<lparr>status = 200,
               json = Inr (JObj [(''jsonrpc'', JStr ''2.0''), (''id'', JNum 1),
                                (''error'', JObj [(''code'', JNum (- 32603)),
                                                 (''message'', JStr ''Internal error'')])])\<rparr>"

definition net_500 :: fetch where
  "net_500 u i = Resolves \<lparr>status = 500, json = Inl (Error ''Unexpected end of JSON input'')\<rparr>"

definition demo_client :: HTTPMCPClient where
  "demo_client =
     new_HTTPMCPClient
       \<lparr>opt_remoteUrl = ''http://localhost:9512'', opt_headers = None,
        opt_onError = OnErrorAbsent\<rparr>"

text \<open>A forwarder whose error callback is the caller's and returns normally.\<close>

definition quiet_callback :: callback where
  "quiet_callback name e = None"

definition demo_client_quiet :: HTTPMCPClient where
  "demo_client_quiet =
     new_HTTPMCPClient
       \<lparr>opt_remoteUrl = ''http://localhost:9512'', opt_headers = None,
        opt_onError = OnErrorGiven quiet_callback\<rparr>"

text \<open>
  A forwarder whose error callback throws, and one whose \<^verbatim>\<open>onError\<close> option is set to
  \<^verbatim>\<open>undefined\<close>.
\<close>

definition throwing_callback :: callback where
  "throwing_callback name e = Some (Error ''callback failed'')"

definition demo_client_throwing :: HTTPMCPClient where
  "demo_client_throwing =
     new_HTTPMCPClient
       \<lparr>opt_remoteUrl = ''http://localhost:9512'', opt_headers = None,
        opt_onError = OnErrorGiven throwing_callback\<rparr>"

definition demo_client_silent :: HTTPMCPClient where
  "demo_client_silent =
     new_HTTPMCPClient
       \<lparr>opt_remoteUrl = ''http://localhost:9512'', opt_headers = None,
        opt_onError = OnErrorUndefined\<rparr>"

section \<open>Lemmas on the Receiver\<close>

lemmas table_defs = table_operation_def table_call_def table_envelope_def returns_nothing_def

lemmas demo_defs =
  demo_platform_def demo_adapter_def new_HTTPAdapter_def demo_router_def post_def
  demo_quote_def demo_escape_def demo_number_def setCORSHeaders_def

lemmas body_defs =
  body_tools_list_def body_old_version_def body_unknown_method_def body_divide_def body_read_def

lemma no_router_call_cors: "filter is_RouterCall (setCORSHeaders A) = []"
  by (simp add: setCORSHeaders_def)

lemma get_prop_valid:
  "params \<noteq> JUndefined \<Longrightarrow> params \<noteq> JNull \<Longrightarrow> get_prop P params k = Inr (param_field params k)"
  by (cases params) (simp_all add: get_prop_def param_field_def)

lemma handleMethod_known:
  assumes "name \<in> set known_methods" and "valid_params name params"
  shows "handleMethod P R (JStr name) params =
           (case table_operation R name params of
              Inl e \<Rightarrow> Inl e
            | Inr v \<Rightarrow> Inr (table_envelope name v),
            table_call name params)"
proof -
  consider "name = ''initialize''" | "name = ''tools/list''" | "name = ''tools/call''"
    | "name = ''resources/list''" | "name = ''resources/read''"
    | "name = ''resources/subscribe''" | "name = ''resources/unsubscribe''"
    | "name = ''prompts/list''" | "name = ''prompts/get''"
    using assms(1) unfolding known_methods_def by fastforce
  then show ?thesis
  proof cases
    case 1
    then show ?thesis
      by (simp add: handleMethod_def table_defs split: sum.splits)
  next
    case 2
    then show ?thesis
      by (simp add: handleMethod_def table_defs split: sum.splits)
  next
    case 3
    with assms(2) have "params \<noteq> JUndefined" "params \<noteq> JNull"
      by (simp_all add: valid_params_def)
    with 3 show ?thesis
      by (simp add: handleMethod_def table_defs get_prop_valid split: sum.splits)
  next
    case 4
    then show ?thesis
      by (simp add: handleMethod_def table_defs split: sum.splits)
  next
    case 5
    with assms(2) have "params \<noteq> JUndefined" "params \<noteq> JNull"
      by (simp_all add: valid_params_def)
    with 5 show ?thesis
      by (simp add: handleMethod_def table_defs get_prop_valid split: sum.splits)
  next
    case 6
    with assms(2) have "params \<noteq> JUndefined" "params \<noteq> JNull"
      by (simp_all add: valid_params_def)
    with 6 show ?thesis
      by (simp add: handleMethod_def table_defs get_prop_valid split: sum.splits)
  next
    case 7
    with assms(2) have "params \<noteq> JUndefined" "params \<noteq> JNull"
      by (simp_all add: valid_params_def)
    with 7 show ?thesis
      by (simp add: handleMethod_def table_defs get_prop_valid split: sum.splits)
  next
    case 8
    then show ?thesis
      by (simp add: handleMethod_def table_defs split: sum.splits)
  next
    case 9
    with assms(2) have "params \<noteq> JUndefined" "params \<noteq> JNull"
      by (simp_all add: valid_params_def)
    with 9 show ?thesis
      by (simp add: handleMethod_def table_defs get_prop_valid split: sum.splits)
  qed
qed

lemma handleMethod_unknown:
  assumes "name \<notin> set known_methods"
  shows "handleMethod P R (JStr name) params = (Inl (Error (''Method not found: '' @ name)), [])"
  using assms by (simp add: known_methods_def handleMethod_def)

lemma valid_request:
  assumes "map_of kvs ''jsonrpc'' = Some (JStr ''2.0'')"
    and "map_of kvs ''method'' = Some (JStr name)" and "name \<noteq> []"
  shows "invalid_request P (JObj kvs) = Inr False"
  using assms by (simp add: invalid_request_def get_prop_def)

lemma request_id_object:
  assumes "map_of kvs ''id'' \<noteq> Some JUndefined"
  shows "request_id P (JObj kvs) = Inr (response_id kvs)"
  using assms
  by (auto simp: request_id_def response_id_def get_prop_def nullish_or_def split: option.splits)

lemma dispatch_object:
  assumes "map_of kvs ''method'' = Some (JStr name)"
    and "map_of kvs ''id'' \<noteq> Some JUndefined"
  shows "dispatch P A (JObj kvs) =
           (case handleMethod P (router A) (JStr name) (param_field (JObj kvs) ''params'') of
              (Inr result, calls) \<Rightarrow>
                (Inr True,
                 calls @ sendJSON P 200
                   (JObj [(''jsonrpc'', JStr ''2.0''), (''id'', response_id kvs),
                          (''result'', result)]))
            | (Inl error, calls) \<Rightarrow>
                (Inr True,
                 calls @ sendError P (response_id kvs) (- 32603) ''Internal error''
                   (JStr (errorMessage error))))"
  using assms
  by (simp add: dispatch_def request_id_object get_prop_def param_field_def
      split: prod.splits sum.splits)

lemma handle_valid:
  assumes "url req = path A" and "http_method req = ''POST''"
    and "JSON_parse P (concat (chunks req)) = Some (JObj kvs)"
    and "map_of kvs ''jsonrpc'' = Some (JStr ''2.0'')"
    and "map_of kvs ''method'' = Some (JStr name)" and "name \<noteq> []"
  shows "handle P A req =
           (case dispatch P A (JObj kvs) of (r, evs) \<Rightarrow> (r, setCORSHeaders A @ evs))"
  using assms(1-3) valid_request [OF assms(4-6)] by (simp add: handle_def)

lemma errorMessage_cases:
  "errorMessage e =
     (case e of Error msg \<Rightarrow> msg | TypeError msg \<Rightarrow> msg | Thrown v \<Rightarrow> ''Unknown error'')"
  by (cases e) simp_all

lemma demo_request_url: "url (post ''/mcp/http'' body) = path demo_adapter"
  by (simp add: demo_defs)

lemma demo_request_method: "http_method (post u body) = ''POST''"
  by (simp add: post_def)

lemma demo_request_body: "concat (chunks (post u body)) = body"
  by (simp add: post_def)

lemma demo_parse_malformed: "JSON_parse demo_platform ''not json'' = None"
  by (simp add: demo_platform_def demo_parse_def body_defs)

lemma demo_parse_null: "JSON_parse demo_platform ''null'' = Some JNull"
  by (simp add: demo_platform_def demo_parse_def)

lemma demo_parse_tools_list:
  "JSON_parse demo_platform body_tools_list =
     Some (JObj [(''jsonrpc'', JStr ''2.0''), (''id'', JNum 1),
                 (''method'', JStr ''tools/list''), (''params'', JObj [])])"
  by (simp add: demo_platform_def demo_parse_def body_defs)

lemma demo_parse_old_version:
  "JSON_parse demo_platform body_old_version =
     Some (JObj [(''jsonrpc'', JStr ''1.0''), (''id'', JNum 2), (''method'', JStr ''x'')])"
  by (simp add: demo_platform_def demo_parse_def body_defs)

lemma demo_parse_unknown_method:
  "JSON_parse demo_platform body_unknown_method =
     Some (JObj [(''jsonrpc'', JStr ''2.0''), (''id'', JNum 7), (''method'', JStr ''nope'')])"
  by (simp add: demo_platform_def demo_parse_def body_defs)

lemma demo_parse_read:
  "JSON_parse demo_platform body_read =
     Some (JObj [(''jsonrpc'', JStr ''2.0''), (''id'', JNum 4),
                 (''method'', JStr ''resources/read''),
                 (''params'', JObj [(''uri'', JStr ''file:///x'')])])"
  by (simp add: demo_platform_def demo_parse_def body_defs)

lemma demo_parse_divide:
  "JSON_parse demo_platform body_divide =
     Some (JObj [(''jsonrpc'', JStr ''2.0''), (''id'', JNum 3),
                 (''method'', JStr ''tools/call''),
                 (''params'', JObj [(''name'', JStr ''calculator''),
                                   (''arguments'', JObj [(''b'', JStr ''0'')])])])"
  by (simp add: demo_platform_def demo_parse_def body_defs)

section \<open>The claims on the Receiver\<close>

text \<open>
  Claim C6. A request whose URL differs from the configured path: \<^verbatim>\<open>handle\<close> resolves to
  \<^verbatim>\<open>false\<close> and nothing at all happens to the response (no status code, no header, CORS
  headers included, no body), nor to the router.
\<close>

theorem handle_other_path:
  "url req \<noteq> path A \<Longrightarrow> handle P A req = (Inr False, [])"
  by (simp add: handle_def)

theorem handle_other_path_witness:
  "url (post ''/mcp/other'' body_tools_list) \<noteq> path demo_adapter \<and>
   handle demo_platform demo_adapter (post ''/mcp/other'' body_tools_list) = (Inr False, [])"
proof -
  have h: "url (post ''/mcp/other'' body_tools_list) \<noteq> path demo_adapter"
    by (simp add: demo_defs)
  show ?thesis using h handle_other_path [OF h] by simp
qed

text \<open>
  Claim C3. A POST request to the configured path whose body \<^verbatim>\<open>JSON.parse\<close> rejects: the
  response has status 200 and the error envelope with \<^verbatim>\<open>id: null\<close>, code \<open>-32700\<close> and
  message "Parse error"; \<^verbatim>\<open>handle\<close> resolves to \<^verbatim>\<open>true\<close>; the router is not invoked.
\<close>

theorem handle_parse_error:
  assumes "url req = path A" and "http_method req = ''POST''"
    and "JSON_parse P (concat (chunks req)) = None"
  shows "handle P A req =
           (Inr True,
            setCORSHeaders A @
            [SetStatus 200,
             SetHeader ''Content-Type'' ''application/json'',
             ResEnd (Some (JSON_stringify P
               (JObj [(''jsonrpc'', JStr ''2.0''),
                      (''id'', JNull),
                      (''error'', JObj [(''code'', JNum (- 32700)),
                                       (''message'', JStr ''Parse error''),
                                       (''data'', JUndefined)])])))]) \<and>
         filter is_RouterCall (snd (handle P A req)) = []"
  using assms by (simp add: handle_def sendError_def sendJSON_def no_router_call_cors)

theorem handle_parse_error_witness:
  \<open>handle demo_platform demo_adapter (post ''/mcp/http'' ''not json'') =
     (Inr True,
      [SetHeader ''Access-Control-Allow-Origin'' ''*'',
       SetHeader ''Access-Control-Allow-Methods'' ''POST, OPTIONS'',
       SetHeader ''Access-Control-Allow-Headers'' ''Content-Type'',
       SetStatus 200,
       SetHeader ''Content-Type'' ''application/json'',
       ResEnd (Some ''{"jsonrpc":"2.0","id":null,"error":{"code":-32700,"message":"Parse error"}}'')])\<close>
proof -
  have c: "JSON_parse demo_platform (concat (chunks (post ''/mcp/http'' ''not json''))) = None"
    by (simp add: demo_request_body demo_parse_malformed)
  show ?thesis
    using handle_parse_error [OF demo_request_url demo_request_method c]
    by (simp add: demo_defs)
qed

text \<open>
  Claim C4. A POST request to the configured path whose body parses to an object in which
  \<^verbatim>\<open>jsonrpc\<close> is not "2.0", or \<^verbatim>\<open>method\<close> is missing or the empty string: the response has
  status 200 and the error envelope with code \<open>-32600\<close> and message "Invalid Request", its
  \<^verbatim>\<open>id\<close> the request's when present and \<^verbatim>\<open>null\<close> otherwise; the router is not invoked.
  (A parsed body holds no \<^verbatim>\<open>undefined\<close>.)
\<close>

theorem handle_invalid_request:
  assumes "url req = path A" and "http_method req = ''POST''"
    and "JSON_parse P (concat (chunks req)) = Some (JObj kvs)"
    and "map_of kvs ''jsonrpc'' \<noteq> Some (JStr ''2.0'') \<or>
         map_of kvs ''method'' = None \<or> map_of kvs ''method'' = Some (JStr [])"
    and "map_of kvs ''id'' \<noteq> Some JUndefined"
  shows "handle P A req =
           (Inr True,
            setCORSHeaders A @
            [SetStatus 200,
             SetHeader ''Content-Type'' ''application/json'',
             ResEnd (Some (JSON_stringify P
               (JObj [(''jsonrpc'', JStr ''2.0''),
                      (''id'', case map_of kvs ''id'' of None \<Rightarrow> JNull | Some i \<Rightarrow> i),
                      (''error'', JObj [(''code'', JNum (- 32600)),
                                       (''message'', JStr ''Invalid Request''),
                                       (''data'', JUndefined)])])))]) \<and>
         filter is_RouterCall (snd (handle P A req)) = []"
proof -
  have inv: "invalid_request P (JObj kvs) = Inr True"
    using assms(4) by (auto simp: invalid_request_def get_prop_def split: option.splits)
  have ident: "request_id P (JObj kvs) =
      Inr (case map_of kvs ''id'' of None \<Rightarrow> JNull | Some i \<Rightarrow> i)"
    using request_id_object [OF assms(5)] by (simp add: response_id_def)
  show ?thesis
    using assms(1-3) inv ident
    by (simp add: handle_def sendError_def sendJSON_def no_router_call_cors)
qed

theorem handle_invalid_request_witness:
  \<open>handle demo_platform demo_adapter (post ''/mcp/http'' body_old_version) =
     (Inr True,
      [SetHeader ''Access-Control-Allow-Origin'' ''*'',
       SetHeader ''Access-Control-Allow-Methods'' ''POST, OPTIONS'',
       SetHeader ''Access-Control-Allow-Headers'' ''Content-Type'',
       SetStatus 200,
       SetHeader ''Content-Type'' ''application/json'',
       ResEnd (Some ''{"jsonrpc":"2.0","id":2,"error":{"code":-32600,"message":"Invalid Request"}}'')])\<close>
proof -
  let ?kvs = "[(''jsonrpc'', JStr ''1.0''), (''id'', JNum 2), (''method'', JStr ''x'')]"
  have c: "JSON_parse demo_platform (concat (chunks (post ''/mcp/http'' body_old_version))) =
      Some (JObj ?kvs)"
    by (simp add: demo_request_body demo_parse_old_version)
  have d: "map_of ?kvs ''jsonrpc'' \<noteq> Some (JStr ''2.0'') \<or>
      map_of ?kvs ''method'' = None \<or> map_of ?kvs ''method'' = Some (JStr [])"
    by simp
  have e: "map_of ?kvs ''id'' \<noteq> Some JUndefined"
    by simp
  show ?thesis
    using handle_invalid_request [OF demo_request_url demo_request_method c d e]
    by (simp add: demo_defs)
qed

text \<open>
  Claim C10. There is a body that the parse step accepts, the body \<^verbatim>\<open>null\<close>, which parses
  to \<^verbatim>\<open>null\<close>, on which \<^verbatim>\<open>handle\<close> for a matched POST request neither sends a response
  nor resolves to a boolean: the read of \<^verbatim>\<open>jsonrpc\<close> on the parsed value throws a TypeError
  that leaves \<^verbatim>\<open>handle\<close>. No status is assigned, the response is not ended, no error
  envelope is sent and the router is not invoked; the CORS headers were set before.
\<close>

theorem handle_null_body:
  assumes "url req = path A" and "http_method req = ''POST''"
    and "JSON_parse P (concat (chunks req)) = Some JNull"
  shows "handle P A req =
           (Inl (TypeError (msg_read_property P JNull ''jsonrpc'')), setCORSHeaders A) \<and>
         filter is_ResEnd (snd (handle P A req)) = [] \<and>
         filter is_SetStatus (snd (handle P A req)) = [] \<and>
         filter is_RouterCall (snd (handle P A req)) = []"
  using assms
  by (simp add: handle_def invalid_request_def get_prop_def setCORSHeaders_def)

theorem handle_null_body_witness:
  "JSON_parse demo_platform ''null'' = Some JNull \<and>
   handle demo_platform demo_adapter (post ''/mcp/http'' ''null'') =
     (Inl (TypeError (''Cannot read properties of null (reading '' @ [CHR 0x27] @ ''jsonrpc'' @
                      [CHR 0x27] @ '')'')),
      [SetHeader ''Access-Control-Allow-Origin'' ''*'',
       SetHeader ''Access-Control-Allow-Methods'' ''POST, OPTIONS'',
       SetHeader ''Access-Control-Allow-Headers'' ''Content-Type''])"
proof -
  have c: "JSON_parse demo_platform (concat (chunks (post ''/mcp/http'' ''null''))) = Some JNull"
    by (simp add: demo_request_body demo_parse_null)
  show ?thesis
    using handle_null_body [OF demo_request_url demo_request_method c]
    by (simp add: demo_defs demo_parse_def)
qed

text \<open>
  Claim C5, as the code has it. A valid request whose method is none of the nine known
  methods, and a valid request on which the router operation fails: the response has code
  \<open>-32603\<close> and the top-level message "Internal error" whatever the failure. Its \<^verbatim>\<open>data\<close>
  is the failure's message when the failure is an \<^verbatim>\<open>Error\<close>, which for an unknown method
  \<open>name\<close> is "Method not found: " followed by \<open>name\<close>; when what the router throws is no
  \<^verbatim>\<open>Error\<close>, \<^verbatim>\<open>data\<close> is "Unknown error", whether or not the thrown value carries a message.
  For an unknown method the router is not invoked.
\<close>

theorem handle_internal_error:
  assumes "url req = path A" and "http_method req = ''POST''"
    and "JSON_parse P (concat (chunks req)) = Some (JObj kvs)"
    and "map_of kvs ''jsonrpc'' = Some (JStr ''2.0'')"
    and "map_of kvs ''method'' = Some (JStr name)" and "name \<noteq> []"
    and "map_of kvs ''id'' \<noteq> Some JUndefined"
  shows "(name \<notin> set known_methods \<longrightarrow>
            handle P A req =
              (Inr True,
               setCORSHeaders A @
               [SetStatus 200,
                SetHeader ''Content-Type'' ''application/json'',
                ResEnd (Some (JSON_stringify P
                  (JObj [(''jsonrpc'', JStr ''2.0''),
                         (''id'', response_id kvs),
                         (''error'', JObj [(''code'', JNum (- 32603)),
                                          (''message'', JStr ''Internal error''),
                                          (''data'', JStr (''Method not found: '' @ name))])])))])) \<and>
         (name \<in> set known_methods \<and> valid_params name (param_field (JObj kvs) ''params'') \<and>
          table_operation (router A) name (param_field (JObj kvs) ''params'') = Inl e \<longrightarrow>
            handle P A req =
              (Inr True,
               setCORSHeaders A @
               table_call name (param_field (JObj kvs) ''params'') @
               [SetStatus 200,
                SetHeader ''Content-Type'' ''application/json'',
                ResEnd (Some (JSON_stringify P
                  (JObj [(''jsonrpc'', JStr ''2.0''),
                         (''id'', response_id kvs),
                         (''error'', JObj [(''code'', JNum (- 32603)),
                                          (''message'', JStr ''Internal error''),
                                          (''data'', JStr (case e of
                                                             Error msg \<Rightarrow> msg
                                                           | TypeError msg \<Rightarrow> msg
                                                           | Thrown v \<Rightarrow> ''Unknown error''))])])))]))"
proof -
  have h: "handle P A req =
             (case dispatch P A (JObj kvs) of (r, evs) \<Rightarrow> (r, setCORSHeaders A @ evs))"
    by (rule handle_valid [OF assms(1-6)])
  have unknown: "name \<notin> set known_methods \<Longrightarrow>
      dispatch P A (JObj kvs) =
        (Inr True,
         sendError P (response_id kvs) (- 32603) ''Internal error''
           (JStr (''Method not found: '' @ name)))"
    unfolding dispatch_object [OF assms(5) assms(7)] by (simp add: handleMethod_unknown)
  have known: "name \<in> set known_methods \<Longrightarrow>
      valid_params name (param_field (JObj kvs) ''params'') \<Longrightarrow>
      table_operation (router A) name (param_field (JObj kvs) ''params'') = Inl e \<Longrightarrow>
      dispatch P A (JObj kvs) =
        (Inr True,
         table_call name (param_field (JObj kvs) ''params'') @
         sendError P (response_id kvs) (- 32603) ''Internal error'' (JStr (errorMessage e)))"
    unfolding dispatch_object [OF assms(5) assms(7)] by (simp add: handleMethod_known)
  show ?thesis
    unfolding h
    using unknown known
    by (simp add: sendError_def sendJSON_def errorMessage_cases)
qed

theorem handle_internal_error_witness:
  \<open>handle demo_platform demo_adapter (post ''/mcp/http'' body_unknown_method) =
     (Inr True,
      [SetHeader ''Access-Control-Allow-Origin'' ''*'',
       SetHeader ''Access-Control-Allow-Methods'' ''POST, OPTIONS'',
       SetHeader ''Access-Control-Allow-Headers'' ''Content-Type'',
       SetStatus 200,
       SetHeader ''Content-Type'' ''application/json'',
       ResEnd (Some ''{"jsonrpc":"2.0","id":7,"error":{"code":-32603,"message":"Internal error","data":"Method not found: nope"}}'')]) \<and>
   handle demo_platform demo_adapter (post ''/mcp/http'' body_divide) =
     (Inr True,
      [SetHeader ''Access-Control-Allow-Origin'' ''*'',
       SetHeader ''Access-Control-Allow-Methods'' ''POST, OPTIONS'',
       SetHeader ''Access-Control-Allow-Headers'' ''Content-Type'',
       RouterCall ''callTool'' [JStr ''calculator'', JObj [(''b'', JStr ''0'')]],
       SetStatus 200,
       SetHeader ''Content-Type'' ''application/json'',
       ResEnd (Some ''{"jsonrpc":"2.0","id":3,"error":{"code":-32603,"message":"Internal error","data":"Division by zero"}}'')])\<close>
proof -
  let ?u = "[(''jsonrpc'', JStr ''2.0''), (''id'', JNum 7), (''method'', JStr ''nope'')]"
  let ?d = "[(''jsonrpc'', JStr ''2.0''), (''id'', JNum 3), (''method'', JStr ''tools/call''),
             (''params'', JObj [(''name'', JStr ''calculator''),
                               (''arguments'', JObj [(''b'', JStr ''0'')])])]"
  have u: "JSON_parse demo_platform (concat (chunks (post ''/mcp/http'' body_unknown_method))) =
      Some (JObj ?u)"
    by (simp add: demo_request_body demo_parse_unknown_method)
  have d: "JSON_parse demo_platform (concat (chunks (post ''/mcp/http'' body_divide))) =
      Some (JObj ?d)"
    by (simp add: demo_request_body demo_parse_divide)
  have nope: "''nope'' \<notin> set known_methods"
    by (simp add: known_methods_def)
  have call: "''tools/call'' \<in> set known_methods \<and>
      valid_params ''tools/call'' (param_field (JObj ?d) ''params'') \<and>
      table_operation (router demo_adapter) ''tools/call'' (param_field (JObj ?d) ''params'') =
        Inl (Error ''Division by zero'')"
    by (simp add: known_methods_def valid_params_def param_field_def table_defs demo_defs)
  have first: "handle demo_platform demo_adapter (post ''/mcp/http'' body_unknown_method) =
      (Inr True,
       setCORSHeaders demo_adapter @
       [SetStatus 200,
        SetHeader ''Content-Type'' ''application/json'',
        ResEnd (Some (JSON_stringify demo_platform
          (JObj [(''jsonrpc'', JStr ''2.0''),
                 (''id'', response_id ?u),
                 (''error'', JObj [(''code'', JNum (- 32603)),
                                  (''message'', JStr ''Internal error''),
                                  (''data'', JStr (''Method not found: '' @ ''nope''))])])))])"
    using handle_internal_error [OF demo_request_url demo_request_method u, of "''nope''"] nope
    by simp
  have second: "handle demo_platform demo_adapter (post ''/mcp/http'' body_divide) =
      (Inr True,
       setCORSHeaders demo_adapter @
       table_call ''tools/call'' (param_field (JObj ?d) ''params'') @
       [SetStatus 200,
        SetHeader ''Content-Type'' ''application/json'',
        ResEnd (Some (JSON_stringify demo_platform
          (JObj [(''jsonrpc'', JStr ''2.0''),
                 (''id'', response_id ?d),
                 (''error'', JObj [(''code'', JNum (- 32603)),
                                  (''message'', JStr ''Internal error''),
                                  (''data'', JStr ''Division by zero'')])])))])"
    using handle_internal_error [OF demo_request_url demo_request_method d,
        of "''tools/call''" "Error ''Division by zero''"] call
    by simp
  show ?thesis
    unfolding first second
    by (simp add: demo_defs response_id_def param_field_def table_call_def)
qed

text \<open>
  The claim as stated fails: a router operation that throws a plain object with the message
  "boom" is answered with the \<^verbatim>\<open>data\<close> "Unknown error", not with that message.
\<close>

theorem handle_plain_throw_counterexample:
  \<open>readResource (router plain_throw_adapter) (JStr ''file:///x'') =
     Inl (Thrown (JObj [(''code'', JNum 404), (''message'', JStr ''boom'')])) \<and>
   handle demo_platform plain_throw_adapter (post ''/mcp/http'' body_read) =
     (Inr True,
      [SetHeader ''Access-Control-Allow-Origin'' ''*'',
       SetHeader ''Access-Control-Allow-Methods'' ''POST, OPTIONS'',
       SetHeader ''Access-Control-Allow-Headers'' ''Content-Type'',
       RouterCall ''readResource'' [JStr ''file:///x''],
       SetStatus 200,
       SetHeader ''Content-Type'' ''application/json'',
       ResEnd (Some ''{"jsonrpc":"2.0","id":4,"error":{"code":-32603,"message":"Internal error","data":"Unknown error"}}'')])\<close>
proof -
  let ?kvs = "[(''jsonrpc'', JStr ''2.0''), (''id'', JNum 4), (''method'', JStr ''resources/read''),
               (''params'', JObj [(''uri'', JStr ''file:///x'')])]"
  have u: "url (post ''/mcp/http'' body_read) = path plain_throw_adapter"
    by (simp add: post_def plain_throw_adapter_def new_HTTPAdapter_def)
  have c: "JSON_parse demo_platform (concat (chunks (post ''/mcp/http'' body_read))) =
      Some (JObj ?kvs)"
    by (simp add: demo_request_body demo_parse_read)
  have v: "map_of ?kvs ''jsonrpc'' = Some (JStr ''2.0'')"
    and m: "map_of ?kvs ''method'' = Some (JStr ''resources/read'')"
    and n: "''resources/read'' \<noteq> []"
    and i: "map_of ?kvs ''id'' \<noteq> Some JUndefined"
    by simp_all
  have k: "''resources/read'' \<in> set known_methods"
    by (simp add: known_methods_def)
  have p: "valid_params ''resources/read'' (param_field (JObj ?kvs) ''params'')"
    by (simp add: valid_params_def param_field_def)
  have h: "handle demo_platform plain_throw_adapter (post ''/mcp/http'' body_read) =
      (case dispatch demo_platform plain_throw_adapter (JObj ?kvs) of
         (r, evs) \<Rightarrow> (r, setCORSHeaders plain_throw_adapter @ evs))"
    by (rule handle_valid [OF u demo_request_method c v m n])
  show ?thesis
    unfolding h dispatch_object [OF m i] handleMethod_known [OF k p]
    by (simp add: table_defs param_field_def response_id_def sendError_def sendJSON_def
        plain_throw_adapter_def plain_throw_router_def new_HTTPAdapter_def demo_router_def
        setCORSHeaders_def demo_platform_def demo_quote_def demo_escape_def demo_number_def)
qed

text \<open>
  Claim C2. For each of the nine known methods with valid parameters, when the router
  operation of the table returns \<open>v\<close>, the response is the success envelope at status 200
  with the request's \<^verbatim>\<open>id\<close> (\<^verbatim>\<open>null\<close> if absent) and as \<^verbatim>\<open>result\<close> the value \<open>v\<close> wrapped as
  the table says: raw for \<^verbatim>\<open>initialize\<close> and \<^verbatim>\<open>tools/call\<close>, under \<^verbatim>\<open>tools\<close>, \<^verbatim>\<open>resources\<close>,
  \<^verbatim>\<open>contents\<close>, \<^verbatim>\<open>prompts\<close>, \<^verbatim>\<open>messages\<close> for the list, read and prompt methods, and the
  empty object for the two subscription methods. The router is invoked once, as the table says.
\<close>

theorem handle_success:
  assumes "url req = path A" and "http_method req = ''POST''"
    and "JSON_parse P (concat (chunks req)) = Some (JObj kvs)"
    and "map_of kvs ''jsonrpc'' = Some (JStr ''2.0'')"
    and "map_of kvs ''method'' = Some (JStr name)"
    and "map_of kvs ''id'' \<noteq> Some JUndefined"
    and "name \<in> set known_methods"
    and "valid_params name (param_field (JObj kvs) ''params'')"
    and "table_operation (router A) name (param_field (JObj kvs) ''params'') = Inr v"
  shows "handle P A req =
           (Inr True,
            setCORSHeaders A @
            table_call name (param_field (JObj kvs) ''params'') @
            [SetStatus 200,
             SetHeader ''Content-Type'' ''application/json'',
             ResEnd (Some (JSON_stringify P
               (JObj [(''jsonrpc'', JStr ''2.0''),
                      (''id'', case map_of kvs ''id'' of None \<Rightarrow> JNull | Some i \<Rightarrow> i),
                      (''result'', table_envelope name v)])))])"
proof -
  have ne: "name \<noteq> []"
    using assms(7) by (auto simp: known_methods_def)
  have h: "handle P A req =
             (case dispatch P A (JObj kvs) of (r, evs) \<Rightarrow> (r, setCORSHeaders A @ evs))"
    by (rule handle_valid [OF assms(1-5) ne])
  show ?thesis
    unfolding h dispatch_object [OF assms(5) assms(6)]
    using assms(7-9) by (simp add: handleMethod_known sendJSON_def response_id_def)
qed

theorem handle_success_witness:
  \<open>handle demo_platform demo_adapter (post ''/mcp/http'' body_tools_list) =
     (Inr True,
      [SetHeader ''Access-Control-Allow-Origin'' ''*'',
       SetHeader ''Access-Control-Allow-Methods'' ''POST, OPTIONS'',
       SetHeader ''Access-Control-Allow-Headers'' ''Content-Type'',
       RouterCall ''listTools'' [],
       SetStatus 200,
       SetHeader ''Content-Type'' ''application/json'',
       ResEnd (Some ''{"jsonrpc":"2.0","id":1,"result":{"tools":[{"name":"calculator"}]}}'')])\<close>
proof -
  let ?kvs = "[(''jsonrpc'', JStr ''2.0''), (''id'', JNum 1),
               (''method'', JStr ''tools/list''), (''params'', JObj [])]"
  have c: "JSON_parse demo_platform (concat (chunks (post ''/mcp/http'' body_tools_list))) =
      Some (JObj ?kvs)"
    by (simp add: demo_request_body demo_parse_tools_list)
  have v: "map_of ?kvs ''jsonrpc'' = Some (JStr ''2.0'')"
    and m: "map_of ?kvs ''method'' = Some (JStr ''tools/list'')"
    and i: "map_of ?kvs ''id'' \<noteq> Some JUndefined"
    by simp_all
  have k: "''tools/list'' \<in> set known_methods"
    by (simp add: known_methods_def)
  have p: "valid_params ''tools/list'' (param_field (JObj ?kvs) ''params'')"
    by (simp add: valid_params_def)
  have r: "table_operation (router demo_adapter) ''tools/list'' (param_field (JObj ?kvs) ''params'') =
      Inr (JArr [JObj [(''name'', JStr ''calculator'')]])"
    by (simp add: table_defs demo_defs)
  show ?thesis
    using handle_success [OF demo_request_url demo_request_method c v m i k p r]
    by (simp add: demo_defs table_defs)
qed

section \<open>Lemmas on the Forwarder\<close>

lemmas order_defs =
  obj_spread_def own_property_order_def is_array_index_def is_digit_def digit_value_def
  decimal_value_def

lemmas header_defs =
  sent_header_def same_header_name_def ascii_lower_def normalize_value_def http_whitespace_def

lemmas client_defs =
  demo_client_def new_HTTPMCPClient_def outgoing_def request_init_def jsonrpc_request_def
  js_increment_def order_defs

lemmas print_defs = demo_platform_def demo_quote_def demo_escape_def demo_number_def

lemma update_append:
  "k \<notin> fst ` set al \<Longrightarrow> AList.update k v al = al @ [(k, v)]"
  by (induction al) auto

lemma foldl_update_head:
  assumes "distinct (map fst hs)" and "c \<notin> fst ` set rest"
    and "fst ` set rest \<inter> fst ` set hs = {}"
  shows "foldl (\<lambda>acc kv. AList.update (fst kv) (snd kv) acc) ((c, x) # rest) hs =
           (c, case map_of hs c of None \<Rightarrow> x | Some v \<Rightarrow> v) #
           rest @ filter (\<lambda>kv. fst kv \<noteq> c) hs"
  using assms
proof (induction hs arbitrary: x rest)
  case Nil
  then show ?case by simp
next
  case (Cons kv hs)
  obtain k v where kv: "kv = (k, v)" by (cases kv)
  have d: "distinct (map fst hs)" and k: "k \<notin> fst ` set hs"
    using Cons.prems(1) by (auto simp: kv)
  show ?case
  proof (cases "k = c")
    case True
    have n: "map_of hs c = None"
      using k True by (simp add: map_of_eq_None_iff)
    have "fst ` set rest \<inter> fst ` set hs = {}"
      using Cons.prems(3) by auto
    from Cons.IH [OF d Cons.prems(2) this, of v] show ?thesis
      by (simp add: kv True n)
  next
    case False
    have kr: "k \<notin> fst ` set rest"
      using Cons.prems(3) by (auto simp: kv)
    have 1: "c \<notin> fst ` set (rest @ [(k, v)])"
      using Cons.prems(2) False by auto
    have 2: "fst ` set (rest @ [(k, v)]) \<inter> fst ` set hs = {}"
      using Cons.prems(3) k by (auto simp: kv)
    from Cons.IH [OF d 1 2, of x] show ?thesis
      using False by (simp add: kv update_append [OF kr])
  qed
qed

lemma array_index_digit: "is_array_index k \<Longrightarrow> is_digit (hd k)"
  by (cases k) (simp_all add: is_array_index_def)

lemma content_type_no_index:
  "same_header_name k ''Content-Type'' \<Longrightarrow> \<not> is_array_index k"
proof
  assume s: "same_header_name k ''Content-Type''" and i: "is_array_index k"
  from s obtain c cs where k: "k = c # cs" and c: "ascii_lower c = CHR ''c''"
    by (cases k) (auto simp: same_header_name_def ascii_lower_def)
  from i k have "is_digit c" using array_index_digit by fastforce
  with c show False
    by (auto simp: is_digit_def ascii_lower_def)
qed

lemma filter_own_property_order:
  assumes "\<And>kv. Q kv \<Longrightarrow> \<not> is_array_index (fst kv)"
  shows "filter Q (own_property_order ps) = filter Q ps"
proof -
  have "filter Q (sort_key (\<lambda>kv. decimal_value (fst kv))
          (filter (\<lambda>kv. is_array_index (fst kv)) ps)) = []"
    using assms by (auto simp: filter_empty_conv)
  moreover have "filter Q (filter (\<lambda>kv. \<not> is_array_index (fst kv)) ps) = filter Q ps"
    using assms by (auto intro: filter_cong)
  ultimately show ?thesis
    by (simp add: own_property_order_def)
qed

lemma mset_own_property_order: "mset (own_property_order ps) = mset ps"
  by (simp add: own_property_order_def)

lemma map_of_own_property_order:
  assumes "distinct (map fst ps)"
  shows "map_of (own_property_order ps) = map_of ps"
proof -
  have "mset (map fst (own_property_order ps)) = mset (map fst ps)"
    using mset_own_property_order [of ps] by (metis mset_map)
  then have "distinct (map fst (own_property_order ps))"
    using assms by (metis mset_eq_imp_distinct_iff)
  moreover have "set (own_property_order ps) = set ps"
    using mset_own_property_order [of ps] by (metis set_mset_mset)
  ultimately show ?thesis
    using assms by (simp add: map_of_inject_set)
qed

lemma spread_content_type:
  assumes "distinct (map fst hs)"
  shows "foldl (\<lambda>acc kv. AList.update (fst kv) (snd kv) acc)
           [(''Content-Type'', ''application/json'')] hs =
         (''Content-Type'',
          case map_of hs ''Content-Type'' of None \<Rightarrow> ''application/json'' | Some v \<Rightarrow> v) #
         filter (\<lambda>kv. fst kv \<noteq> ''Content-Type'') hs"
  using foldl_update_head [OF assms, of "''Content-Type''" "[]" "''application/json''"] by simp

lemma distinct_spread_content_type:
  assumes "distinct (map fst hs)"
  shows "distinct (map fst (foldl (\<lambda>acc kv. AList.update (fst kv) (snd kv) acc)
           [(''Content-Type'', ''application/json'')] hs))"
  unfolding spread_content_type [OF assms]
  using assms by (auto simp: distinct_map_filter)

lemma map_of_filter_other:
  "map_of (filter (\<lambda>kv. fst kv \<noteq> c) hs) k = (if k = c then None else map_of hs k)"
  by (induction hs) auto

lemma map_of_spread_content_type:
  assumes "distinct (map fst hs)"
  shows "map_of (obj_spread [(''Content-Type'', ''application/json'')] hs) =
           [''Content-Type'' \<mapsto> ''application/json''] ++ map_of hs"
proof -
  let ?l = "foldl (\<lambda>acc kv. AList.update (fst kv) (snd kv) acc)
              [(''Content-Type'', ''application/json'')] hs"
  have 1: "map_of (obj_spread [(''Content-Type'', ''application/json'')] hs) = map_of ?l"
    unfolding obj_spread_def
    by (rule map_of_own_property_order [OF distinct_spread_content_type [OF assms]])
  have 2: "map_of ?l = [''Content-Type'' \<mapsto> ''application/json''] ++ map_of hs"
    unfolding spread_content_type [OF assms]
    by (auto simp: fun_eq_iff map_add_def map_of_filter_other split: option.splits)
  show ?thesis
    unfolding 1 2 ..
qed

lemma sent_content_type:
  assumes "distinct (map fst hs)"
  shows "sent_header (obj_spread [(''Content-Type'', ''application/json'')] hs) ''Content-Type'' =
           Some (combine_values (map normalize_value
             ((case map_of hs ''Content-Type'' of None \<Rightarrow> ''application/json'' | Some v \<Rightarrow> v) #
              map snd (filter (\<lambda>kv. fst kv \<noteq> ''Content-Type'' \<and>
                                    same_header_name (fst kv) ''Content-Type'') hs))))"
proof -
  let ?Q = "\<lambda>kv :: string \<times> string. same_header_name (fst kv) ''Content-Type''"
  have "filter ?Q (obj_spread [(''Content-Type'', ''application/json'')] hs) =
        filter ?Q ((''Content-Type'',
          case map_of hs ''Content-Type'' of None \<Rightarrow> ''application/json'' | Some v \<Rightarrow> v) #
         filter (\<lambda>kv. fst kv \<noteq> ''Content-Type'') hs)"
    unfolding obj_spread_def spread_content_type [OF assms]
    by (rule filter_own_property_order) (simp add: content_type_no_index)
  also have "\<dots> = (''Content-Type'',
          case map_of hs ''Content-Type'' of None \<Rightarrow> ''application/json'' | Some v \<Rightarrow> v) #
         filter (\<lambda>kv. fst kv \<noteq> ''Content-Type'' \<and> same_header_name (fst kv) ''Content-Type'') hs"
    by (simp add: same_header_name_def)
  finally show ?thesis
    by (simp add: sent_header_def comp_def)
qed

lemma sendRequest_events:
  "snd (snd (sendRequest P net C name params)) = [Fetch (remoteUrl C) (outgoing P C name params)]"
  by (simp add: sendRequest_def outgoing_def Let_def split: fetch_outcome.splits sum.splits)

lemma sendRequest_client:
  "fst (snd (sendRequest P net C name params)) = C\<lparr>requestId := js_increment (requestId C)\<rparr>"
  by (simp add: sendRequest_def Let_def split: fetch_outcome.splits sum.splits)

lemma requestId_client_after:
  "requestId C \<le> 2 ^ 53 \<Longrightarrow>
   requestId (client_after P C calls) = min (requestId C + length calls) (2 ^ 53)"
proof (induction calls arbitrary: C)
  case Nil
  then show ?case by simp
next
  case (Cons c calls)
  let ?C = "fst (snd (sendRequest P (fst c) C (fst (snd c)) (snd (snd c))))"
  have r: "requestId ?C = js_increment (requestId C)"
    by (simp add: sendRequest_client)
  then have "requestId ?C \<le> 2 ^ 53"
    using Cons.prems by (simp add: js_increment_def)
  from Cons.IH [OF this] show ?case
    using Cons.prems by (simp add: r js_increment_def min_def del: power_numeral)
qed

lemma fields_client_after:
  "remoteUrl (client_after P C calls) = remoteUrl C \<and>
   headers (client_after P C calls) = headers C \<and>
   onError (client_after P C calls) = onError C"
  by (induction calls arbitrary: C) (simp_all add: sendRequest_client)

lemma next_id_after:
  "js_increment (requestId (client_after P (new_HTTPMCPClient options) calls)) =
     (if length calls < 2 ^ 53 then length calls + 1 else 2 ^ 53)"
proof -
  have "requestId (client_after P (new_HTTPMCPClient options) calls) = min (length calls) (2 ^ 53)"
    using requestId_client_after [of "new_HTTPMCPClient options" P calls]
    by (simp add: new_HTTPMCPClient_def)
  then show ?thesis
    by (simp add: js_increment_def min_def del: power_numeral)
qed

lemma outgoing_after:
  "outgoing P (client_after P (new_HTTPMCPClient options) calls) name params =
     request_init P (opt_headers options)
       (jsonrpc_request (if length calls < 2 ^ 53 then length calls + 1 else 2 ^ 53) name params)"
  unfolding outgoing_def next_id_after
  by (simp add: fields_client_after new_HTTPMCPClient_def)

lemma handler_registered:
  "map_of (setupHandlers P net) s = Some (forward P net (schema_method s))"
  by (cases s) (simp_all add: setupHandlers_def)

lemma setupHandlers_methods:
  "map (\<lambda>sh. schema_method (fst sh)) (setupHandlers P net) = known_methods"
  by (simp add: setupHandlers_def known_methods_def)

lemma sendRequest_resolves:
  assumes "net (remoteUrl C) (outgoing P C name params) = Resolves resp"
  shows "sendRequest P net C name params =
           (if \<not> ok resp then
              Inl (Error (''HTTP error! status: '' @ Number_toString P (status resp)))
            else (case json resp of Inl e \<Rightarrow> Inl e | Inr j \<Rightarrow> unwrap_response P j),
            C\<lparr>requestId := js_increment (requestId C)\<rparr>,
            [Fetch (remoteUrl C) (outgoing P C name params)])"
  using assms by (simp add: sendRequest_def outgoing_def Let_def split: sum.splits)

lemma unwrap_result:
  assumes "map_of kvs ''error'' = None" and "map_of kvs ''result'' = Some X"
  shows "unwrap_response P (JObj kvs) = Inr X"
  using assms by (simp add: unwrap_response_def get_prop_def)

lemma unwrap_error:
  assumes "map_of kvs ''error'' = Some (JObj err)"
    and "map_of err ''code'' = Some (JNum c)" and "map_of err ''message'' = Some (JStr m)"
  shows "unwrap_response P (JObj kvs) =
           Inl (Error (''JSON-RPC error '' @ Number_toString P c @ '': '' @ m))"
  using assms by (simp add: unwrap_response_def get_prop_def)

lemma forward_fails:
  assumes "sendRequest P net C name params = (Inl e, C', evs)" and "req_params request = params"
  shows "forward P net name C request =
           (case onError C' of
              None \<Rightarrow> (Inl e, C', evs)
            | Some f \<Rightarrow>
                (Inl (case fst (call_onError P f (req_method request) e) of
                        None \<Rightarrow> e
                      | Some t \<Rightarrow> t),
                 C', evs @ snd (call_onError P f (req_method request) e)))"
  using assms by (simp add: forward_def split: prod.splits option.splits)

lemma call_onError_default:
  "call_onError P DefaultOnError name (Error msg) =
     (None, [OnError name (Error msg), SendLoggingMessage ''error'' (name @ '': '' @ msg)])"
  by (simp add: call_onError_def thrown_message_def)

lemma call_onError_given:
  "call_onError P (GivenOnError cb) name e = (cb name e, [OnError name e])"
  by (simp add: call_onError_def)

lemma demo_handler:
  "map_of (setupHandlers demo_platform net) ListToolsRequestSchema =
     Some (forward demo_platform net ''tools/list'')"
  by (simp add: setupHandlers_def)

section \<open>The claims on the Forwarder\<close>

text \<open>
  Claim C1, as the code has it. Every call of \<^verbatim>\<open>sendRequest\<close> calls \<^verbatim>\<open>fetch\<close> exactly once,
  whatever the outcome: an HTTP POST to the configured remote URL, with the serialized
  request as body and with the headers object \<^verbatim>\<open>Content-Type: application/json\<close> overlaid
  with the configured static headers, a configured property of that exact name replacing
  the default. In the request built from this object, the \<^verbatim>\<open>Content-Type\<close> header is
  \<^verbatim>\<open>application/json\<close> when no configured header is named \<^verbatim>\<open>Content-Type\<close> in any letter
  case; otherwise the configured headers change it: its value is the value under the exact
  name (the configured one if there is one, else \<^verbatim>\<open>application/json\<close>) followed by the
  values of the configured headers named \<^verbatim>\<open>Content-Type\<close> in another letter case, joined
  by a comma and a space. (The configured headers are an object: their names are distinct.)
\<close>

theorem sendRequest_single_post:
  assumes "distinct (map fst (configured C))"
  shows "snd (snd (sendRequest P net C name params)) =
           [Fetch (remoteUrl C)
              \<lparr>init_method = ''POST'',
               init_headers = obj_spread [(''Content-Type'', ''application/json'')] (configured C),
               init_body = JSON_stringify P
                 (JObj [(''jsonrpc'', JStr ''2.0''),
                        (''id'', JNum (int (js_increment (requestId C)))),
                        (''method'', JStr name),
                        (''params'', params)])\<rparr>] \<and>
         map_of (obj_spread [(''Content-Type'', ''application/json'')] (configured C)) =
           [''Content-Type'' \<mapsto> ''application/json''] ++ map_of (configured C) \<and>
         sent_header (obj_spread [(''Content-Type'', ''application/json'')] (configured C))
             ''Content-Type'' =
           Some (combine_values (map normalize_value
             ((case map_of (configured C) ''Content-Type'' of
                 None \<Rightarrow> ''application/json''
               | Some v \<Rightarrow> v) #
              map snd (filter (\<lambda>kv. fst kv \<noteq> ''Content-Type'' \<and>
                                    same_header_name (fst kv) ''Content-Type'')
                         (configured C))))) \<and>
         (list_all (\<lambda>kv. \<not> same_header_name (fst kv) ''Content-Type'') (configured C) \<longrightarrow>
            sent_header (obj_spread [(''Content-Type'', ''application/json'')] (configured C))
              ''Content-Type'' = Some ''application/json'')"
proof -
  have none: "list_all (\<lambda>kv. \<not> same_header_name (fst kv) ''Content-Type'') (configured C) \<Longrightarrow>
      map_of (configured C) ''Content-Type'' = None \<and>
      filter (\<lambda>kv. fst kv \<noteq> ''Content-Type'' \<and> same_header_name (fst kv) ''Content-Type'')
        (configured C) = []"
    by (force simp: list_all_iff filter_empty_conv map_of_eq_None_iff same_header_name_def)
  have plain: "normalize_value ''application/json'' = ''application/json''"
    by (simp add: normalize_value_def http_whitespace_def)
  show ?thesis
    unfolding sent_content_type [OF assms] map_of_spread_content_type [OF assms]
    using none
    by (simp add: sendRequest_events outgoing_def request_init_def jsonrpc_request_def
        configured_def plain)
qed

theorem sendRequest_single_post_witness:
  \<open>snd (snd (sendRequest demo_platform net_result
      (new_HTTPMCPClient
         \<lparr>opt_remoteUrl = ''http://localhost:9512'',
          opt_headers = Some [(''authorization'', ''Bearer secret''), (''1'', ''one'')],
          opt_onError = OnErrorAbsent\<rparr>)
      ''tools/list'' JUndefined)) =
     [Fetch ''http://localhost:9512''
        \<lparr>init_method = ''POST'',
         init_headers = [(''1'', ''one''),
                         (''Content-Type'', ''application/json''),
                         (''authorization'', ''Bearer secret'')],
         init_body = ''{"jsonrpc":"2.0","id":1,"method":"tools/list"}''\<rparr>] \<and>
   sent_header [(''1'', ''one''),
                (''Content-Type'', ''application/json''),
                (''authorization'', ''Bearer secret'')] ''Content-Type'' =
     Some ''application/json'' \<and>
   sent_header
     (obj_spread [(''Content-Type'', ''application/json'')] [(''content-type'', ''text/plain'')])
     ''Content-Type'' = Some ''application/json, text/plain''\<close>
proof -
  let ?C = "new_HTTPMCPClient
         \<lparr>opt_remoteUrl = ''http://localhost:9512'',
          opt_headers = Some [(''authorization'', ''Bearer secret''), (''1'', ''one'')],
          opt_onError = OnErrorAbsent\<rparr>"
  let ?L = "new_HTTPMCPClient
         \<lparr>opt_remoteUrl = ''http://localhost:9512'',
          opt_headers = Some [(''content-type'', ''text/plain'')],
          opt_onError = OnErrorAbsent\<rparr>"
  have c: "configured ?C = [(''authorization'', ''Bearer secret''), (''1'', ''one'')]"
    by (simp add: configured_def new_HTTPMCPClient_def)
  have l: "configured ?L = [(''content-type'', ''text/plain'')]"
    by (simp add: configured_def new_HTTPMCPClient_def)
  have d: "distinct (map fst (configured ?C))"
    by (simp add: c)
  have dl: "distinct (map fst (configured ?L))"
    by (simp add: l)
  have n: "list_all (\<lambda>kv. \<not> same_header_name (fst kv) ''Content-Type'') (configured ?C)"
    by (simp add: c same_header_name_def ascii_lower_def)
  have o: "obj_spread [(''Content-Type'', ''application/json'')]
             [(''authorization'', ''Bearer secret''), (''1'', ''one'')] =
           [(''1'', ''one''), (''Content-Type'', ''application/json''),
            (''authorization'', ''Bearer secret'')]"
    by (simp add: order_defs)
  have first: \<open>snd (snd (sendRequest demo_platform net_result ?C ''tools/list'' JUndefined)) =
      [Fetch ''http://localhost:9512''
         \<lparr>init_method = ''POST'',
          init_headers = [(''1'', ''one''), (''Content-Type'', ''application/json''),
                          (''authorization'', ''Bearer secret'')],
          init_body = ''{"jsonrpc":"2.0","id":1,"method":"tools/list"}''\<rparr>] \<and>
     sent_header [(''1'', ''one''), (''Content-Type'', ''application/json''),
                  (''authorization'', ''Bearer secret'')] ''Content-Type'' =
       Some ''application/json''\<close>
    using sendRequest_single_post [OF d, of demo_platform net_result "''tools/list''" JUndefined] n
    unfolding c o
    by (simp add: new_HTTPMCPClient_def js_increment_def print_defs normalize_value_def
        http_whitespace_def)
  have second: "sent_header
      (obj_spread [(''Content-Type'', ''application/json'')] [(''content-type'', ''text/plain'')])
      ''Content-Type'' = Some ''application/json, text/plain''"
    using sendRequest_single_post [OF dl, of demo_platform net_result "''tools/list''" JUndefined]
    unfolding l
    by (simp add: header_defs)
  show ?thesis
    using first second by simp
qed

text \<open>
  The claim as stated fails: configured headers that map \<^verbatim>\<open>Content-Type\<close> to
  \<^verbatim>\<open>text/plain\<close> replace the value \<^verbatim>\<open>application/json\<close> in the outgoing request.
\<close>

theorem sendRequest_content_type_counterexample:
  \<open>snd (snd (sendRequest demo_platform net_result
      (new_HTTPMCPClient
         \<lparr>opt_remoteUrl = ''http://localhost:9512'',
          opt_headers = Some [(''Content-Type'', ''text/plain'')],
          opt_onError = OnErrorAbsent\<rparr>)
      ''tools/list'' JUndefined)) =
     [Fetch ''http://localhost:9512''
        \<lparr>init_method = ''POST'',
         init_headers = [(''Content-Type'', ''text/plain'')],
         init_body = ''{"jsonrpc":"2.0","id":1,"method":"tools/list"}''\<rparr>] \<and>
   sent_header [(''Content-Type'', ''text/plain'')] ''Content-Type'' = Some ''text/plain''\<close>
  by (simp add: sendRequest_events client_defs print_defs header_defs)

text \<open>
  Claim C9, as the code has it. The counter starts at 0 and request number \<open>n\<close> of a
  forwarder carries the identifier \<open>n\<close> as long as \<open>n\<close> is at most \<open>2^53\<close>, so the
  identifiers of the first \<open>2^53\<close> requests increase strictly; every later request carries
  \<open>2^53\<close>, where the counter, a double, stays. Here \<open>calls\<close> are the calls made before,
  whatever their outcomes.
\<close>

theorem requestId_sequence:
  "snd (snd (sendRequest P net (client_after P (new_HTTPMCPClient options) calls) name params)) =
     [Fetch (opt_remoteUrl options)
        \<lparr>init_method = ''POST'',
         init_headers = obj_spread [(''Content-Type'', ''application/json'')]
                          (case opt_headers options of None \<Rightarrow> [] | Some h \<Rightarrow> h),
         init_body = JSON_stringify P
           (JObj [(''jsonrpc'', JStr ''2.0''),
                  (''id'', JNum (if length calls < 2 ^ 53 then int (length calls) + 1 else 2 ^ 53)),
                  (''method'', JStr name),
                  (''params'', params)])\<rparr>]"
  unfolding sendRequest_events outgoing_after
  by (simp add: fields_client_after request_init_def jsonrpc_request_def new_HTTPMCPClient_def
      add.commute)

theorem requestId_sequence_witness:
  \<open>snd (snd (sendRequest demo_platform net_result
      (client_after demo_platform demo_client
         [(net_result, ''initialize'', JObj []), (net_error, ''tools/list'', JUndefined)])
      ''tools/call'' (JObj []))) =
     [Fetch ''http://localhost:9512''
        \<lparr>init_method = ''POST'',
         init_headers = [(''Content-Type'', ''application/json'')],
         init_body = ''{"jsonrpc":"2.0","id":3,"method":"tools/call","params":{}}''\<rparr>]\<close>
  using requestId_sequence [of demo_platform net_result
      "\<lparr>opt_remoteUrl = ''http://localhost:9512'', opt_headers = None, opt_onError = OnErrorAbsent\<rparr>"
      "[(net_result, ''initialize'', JObj []), (net_error, ''tools/list'', JUndefined)]"
      "''tools/call''" "JObj []"]
  by (simp add: demo_client_def order_defs print_defs)

text \<open>
  The claim as stated fails: request number \<open>2^53 + 1\<close> carries the same identifier as
  request number \<open>2^53\<close>, not a greater one.
\<close>

theorem requestId_counterexample:
  \<open>snd (snd (sendRequest demo_platform net_result
      (client_after demo_platform demo_client
         (replicate (2 ^ 53 - 1) (net_result, ''tools/list'', JUndefined)))
      ''tools/list'' JUndefined)) =
     [Fetch ''http://localhost:9512''
        \<lparr>init_method = ''POST'',
         init_headers = [(''Content-Type'', ''application/json'')],
         init_body = ''{"jsonrpc":"2.0","id":9007199254740992,"method":"tools/list"}''\<rparr>] \<and>
   snd (snd (sendRequest demo_platform net_result
      (client_after demo_platform demo_client
         (replicate (2 ^ 53) (net_result, ''tools/list'', JUndefined)))
      ''tools/list'' JUndefined)) =
     [Fetch ''http://localhost:9512''
        \<lparr>init_method = ''POST'',
         init_headers = [(''Content-Type'', ''application/json'')],
         init_body = ''{"jsonrpc":"2.0","id":9007199254740992,"method":"tools/list"}''\<rparr>]\<close>
proof -
  let ?c = "(net_result, ''tools/list'', JUndefined)"
  have o: "outgoing demo_platform (client_after demo_platform demo_client (replicate n ?c))
             ''tools/list'' JUndefined =
           request_init demo_platform None
             (jsonrpc_request (if n < 2 ^ 53 then n + 1 else 2 ^ 53) ''tools/list'' JUndefined)" for n
    using outgoing_after [of demo_platform
        "\<lparr>opt_remoteUrl = ''http://localhost:9512'', opt_headers = None, opt_onError = OnErrorAbsent\<rparr>"
        "replicate n ?c" "''tools/list''" JUndefined]
    by (simp add: demo_client_def)
  have u: "remoteUrl (client_after demo_platform demo_client (replicate n ?c)) =
      ''http://localhost:9512''" for n
    by (simp add: fields_client_after demo_client_def new_HTTPMCPClient_def)
  show ?thesis
    unfolding sendRequest_events o u
    by (simp add: request_init_def jsonrpc_request_def order_defs print_defs)
qed

text \<open>
  Claim C8. Each of the nine request schemas has a handler registered by \<^verbatim>\<open>setupHandlers\<close>,
  one per known method, and for each of them: when the HTTP response has a success status
  and its body is a JSON-RPC response without \<^verbatim>\<open>error\<close> and with \<^verbatim>\<open>result: X\<close>, the handler
  returns \<open>X\<close> unchanged and the error callback is not invoked.
\<close>

theorem forward_success:
  assumes "net (remoteUrl C) (outgoing P C (schema_method s) (req_params request)) = Resolves resp"
    and "ok resp" and "json resp = Inr (JObj kvs)"
    and "map_of kvs ''error'' = None" and "map_of kvs ''result'' = Some X"
  shows "(\<exists>h. map_of (setupHandlers P net) s = Some h \<and>
              h C request =
                (Inr X, C\<lparr>requestId := js_increment (requestId C)\<rparr>,
                 [Fetch (remoteUrl C) (outgoing P C (schema_method s) (req_params request))]) \<and>
              filter is_OnError (snd (snd (h C request))) = []) \<and>
         map (\<lambda>sh. schema_method (fst sh)) (setupHandlers P net) =
           [''initialize'', ''tools/list'', ''tools/call'', ''resources/list'', ''resources/read'',
            ''resources/subscribe'', ''resources/unsubscribe'', ''prompts/list'', ''prompts/get'']"
proof -
  have "sendRequest P net C (schema_method s) (req_params request) =
          (Inr X, C\<lparr>requestId := js_increment (requestId C)\<rparr>,
           [Fetch (remoteUrl C) (outgoing P C (schema_method s) (req_params request))])"
    using assms(1-3) unwrap_result [OF assms(4,5)] by (simp add: sendRequest_resolves)
  then have "forward P net (schema_method s) C request =
          (Inr X, C\<lparr>requestId := js_increment (requestId C)\<rparr>,
           [Fetch (remoteUrl C) (outgoing P C (schema_method s) (req_params request))])"
    by (simp add: forward_def)
  then show ?thesis
    using setupHandlers_methods [of P net]
    by (simp add: handler_registered known_methods_def)
qed

theorem forward_success_witness:
  \<open>forward demo_platform net_result ''tools/list'' demo_client
      \<lparr>req_method = ''tools/list'', req_params = JObj []\<rparr> =
     (Inr (JObj [(''tools'', JArr [])]),
      demo_client\<lparr>requestId := 1\<rparr>,
      [Fetch ''http://localhost:9512''
         \<lparr>init_method = ''POST'',
          init_headers = [(''Content-Type'', ''application/json'')],
          init_body = ''{"jsonrpc":"2.0","id":1,"method":"tools/list","params":{}}''\<rparr>])\<close>
proof -
  let ?request = "\<lparr>req_method = ''tools/list'', req_params = JObj []\<rparr>"
  let ?resp = "\<lparr>status = 200,
                json = Inr (JObj [(''jsonrpc'', JStr ''2.0''), (''id'', JNum 1),
                                 (''result'', JObj [(''tools'', JArr [])])])\<rparr>"
  let ?kvs = "[(''jsonrpc'', JStr ''2.0''), (''id'', JNum 1),
               (''result'', JObj [(''tools'', JArr [])])]"
  have n: "net_result (remoteUrl demo_client)
      (outgoing demo_platform demo_client (schema_method ListToolsRequestSchema)
         (req_params ?request)) = Resolves ?resp"
    by (simp add: net_result_def)
  have o: "ok ?resp" by (simp add: ok_def)
  have j: "json ?resp = Inr (JObj ?kvs)" by simp
  have e: "map_of ?kvs ''error'' = None" by simp
  have r: "map_of ?kvs ''result'' = Some (JObj [(''tools'', JArr [])])" by simp
  have "forward demo_platform net_result ''tools/list'' demo_client ?request =
      (Inr (JObj [(''tools'', JArr [])]),
       demo_client\<lparr>requestId := js_increment (requestId demo_client)\<rparr>,
       [Fetch (remoteUrl demo_client)
          (outgoing demo_platform demo_client (schema_method ListToolsRequestSchema)
             (req_params ?request))])"
    using forward_success [where P = demo_platform and net = net_result and C = demo_client
        and s = ListToolsRequestSchema and request = ?request, OF n o j e r]
    by (auto simp: demo_handler)
  then show ?thesis
    by (simp add: client_defs print_defs)
qed

text \<open>
  Claim C7, as the code has it. Each of the nine request schemas has a handler registered
  by \<^verbatim>\<open>setupHandlers\<close>, one per known method, and for each of them: when the remote answers
  with a JSON-RPC response whose \<^verbatim>\<open>error\<close> object has code \<open>c\<close> and message \<open>m\<close>, or with a
  non-success HTTP status, the handler fails after one request. A configured error callback
  is invoked exactly once before that, its first argument the method of the originating
  request and its second the failure whose message holds \<open>c\<close> and \<open>m\<close> (or the status). That
  failure reaches the caller when the callback returns normally, as the default callback
  does after sending its logging notification; when the callback throws, what it throws
  reaches the caller instead. With the option \<^verbatim>\<open>onError\<close> set to \<^verbatim>\<open>undefined\<close> no callback
  is invoked and the failure reaches the caller.
\<close>

theorem forward_failure:
  assumes "net (remoteUrl C) (outgoing P C (schema_method s) (req_params request)) = Resolves resp"
    and "msg = (if ok resp then ''JSON-RPC error '' @ Number_toString P c @ '': '' @ m
                else ''HTTP error! status: '' @ Number_toString P (status resp))"
    and "ok resp \<longrightarrow>
           json resp = Inr (JObj kvs) \<and> map_of kvs ''error'' = Some (JObj err) \<and>
           map_of err ''code'' = Some (JNum c) \<and> map_of err ''message'' = Some (JStr m)"
  shows "(\<exists>h. map_of (setupHandlers P net) s = Some h \<and>
              h C request =
                (case onError C of
                   None \<Rightarrow>
                     (Inl (Error msg), C\<lparr>requestId := js_increment (requestId C)\<rparr>,
                      [Fetch (remoteUrl C) (outgoing P C (schema_method s) (req_params request))])
                 | Some DefaultOnError \<Rightarrow>
                     (Inl (Error msg), C\<lparr>requestId := js_increment (requestId C)\<rparr>,
                      [Fetch (remoteUrl C) (outgoing P C (schema_method s) (req_params request)),
                       OnError (req_method request) (Error msg),
                       SendLoggingMessage ''error'' (req_method request @ '': '' @ msg)])
                 | Some (GivenOnError cb) \<Rightarrow>
                     (Inl (case cb (req_method request) (Error msg) of
                             None \<Rightarrow> Error msg
                           | Some t \<Rightarrow> t),
                      C\<lparr>requestId := js_increment (requestId C)\<rparr>,
                      [Fetch (remoteUrl C) (outgoing P C (schema_method s) (req_params request)),
                       OnError (req_method request) (Error msg)]))) \<and>
         map (\<lambda>sh. schema_method (fst sh)) (setupHandlers P net) =
           [''initialize'', ''tools/list'', ''tools/call'', ''resources/list'', ''resources/read'',
            ''resources/subscribe'', ''resources/unsubscribe'', ''prompts/list'', ''prompts/get'']"
proof -
  let ?C = "C\<lparr>requestId := js_increment (requestId C)\<rparr>"
  let ?ev = "Fetch (remoteUrl C) (outgoing P C (schema_method s) (req_params request))"
  have sent: "sendRequest P net C (schema_method s) (req_params request) =
      (Inl (Error msg), ?C, [?ev])"
  proof (cases "ok resp")
    case True
    with assms(3) have "unwrap_response P (JObj kvs) =
        Inl (Error (''JSON-RPC error '' @ Number_toString P c @ '': '' @ m))"
      by (simp add: unwrap_error)
    with True assms show ?thesis by (simp add: sendRequest_resolves)
  next
    case False
    with assms(1,2) show ?thesis by (simp add: sendRequest_resolves)
  qed
  have "forward P net (schema_method s) C request =
          (case onError C of
             None \<Rightarrow> (Inl (Error msg), ?C, [?ev])
           | Some DefaultOnError \<Rightarrow>
               (Inl (Error msg), ?C,
                [?ev, OnError (req_method request) (Error msg),
                 SendLoggingMessage ''error'' (req_method request @ '': '' @ msg)])
           | Some (GivenOnError cb) \<Rightarrow>
               (Inl (case cb (req_method request) (Error msg) of
                       None \<Rightarrow> Error msg
                     | Some t \<Rightarrow> t),
                ?C, [?ev, OnError (req_method request) (Error msg)]))"
    unfolding forward_fails [OF sent refl]
    by (simp add: call_onError_default call_onError_given split: option.splits onError_fn.splits)
  then show ?thesis
    using setupHandlers_methods [of P net]
    by (simp add: handler_registered known_methods_def)
qed

theorem forward_failure_witness:
  \<open>forward demo_platform net_error ''tools/list'' demo_client
      \<lparr>req_method = ''tools/list'', req_params = JUndefined\<rparr> =
     (Inl (Error ''JSON-RPC error -32603: Internal error''),
      demo_client\<lparr>requestId := 1\<rparr>,
      [Fetch ''http://localhost:9512''
         \<lparr>init_method = ''POST'',
          init_headers = [(''Content-Type'', ''application/json'')],
          init_body = ''{"jsonrpc":"2.0","id":1,"method":"tools/list"}''\<rparr>,
       OnError ''tools/list'' (Error ''JSON-RPC error -32603: Internal error''),
       SendLoggingMessage ''error'' ''tools/list: JSON-RPC error -32603: Internal error'']) \<and>
   forward demo_platform net_500 ''tools/list'' demo_client
      \<lparr>req_method = ''tools/list'', req_params = JUndefined\<rparr> =
     (Inl (Error ''HTTP error! status: 500''),
      demo_client\<lparr>requestId := 1\<rparr>,
      [Fetch ''http://localhost:9512''
         \<lparr>init_method = ''POST'',
          init_headers = [(''Content-Type'', ''application/json'')],
          init_body = ''{"jsonrpc":"2.0","id":1,"method":"tools/list"}''\<rparr>,
       OnError ''tools/list'' (Error ''HTTP error! status: 500''),
       SendLoggingMessage ''error'' ''tools/list: HTTP error! status: 500'']) \<and>
   forward demo_platform net_500 ''tools/list'' demo_client_quiet
      \<lparr>req_method = ''tools/list'', req_params = JUndefined\<rparr> =
     (Inl (Error ''HTTP error! status: 500''),
      demo_client_quiet\<lparr>requestId := 1\<rparr>,
      [Fetch ''http://localhost:9512''
         \<lparr>init_method = ''POST'',
          init_headers = [(''Content-Type'', ''application/json'')],
          init_body = ''{"jsonrpc":"2.0","id":1,"method":"tools/list"}''\<rparr>,
       OnError ''tools/list'' (Error ''HTTP error! status: 500'')]) \<and>
   forward demo_platform net_500 ''tools/list'' demo_client_silent
      \<lparr>req_method = ''tools/list'', req_params = JUndefined\<rparr> =
     (Inl (Error ''HTTP error! status: 500''),
      demo_client_silent\<lparr>requestId := 1\<rparr>,
      [Fetch ''http://localhost:9512''
         \<lparr>init_method = ''POST'',
          init_headers = [(''Content-Type'', ''application/json'')],
          init_body = ''{"jsonrpc":"2.0","id":1,"method":"tools/list"}''\<rparr>])\<close>
proof -
  let ?request = "\<lparr>req_method = ''tools/list'', req_params = JUndefined\<rparr>"
  let ?err = "[(''code'', JNum (- 32603)), (''message'', JStr ''Internal error'')]"
  let ?kvs = "[(''jsonrpc'', JStr ''2.0''), (''id'', JNum 1), (''error'', JObj ?err)]"
  let ?resp = "\<lparr>status = 200, json = Inr (JObj ?kvs)\<rparr>"
  let ?resp500 = "\<lparr>status = 500, json = Inl (Error ''Unexpected end of JSON input'')\<rparr>"
  have e: "''JSON-RPC error -32603: Internal error'' =
      (if ok ?resp
       then ''JSON-RPC error '' @ Number_toString demo_platform (- 32603) @ '': '' @
            ''Internal error''
       else ''HTTP error! status: '' @ Number_toString demo_platform (status ?resp))"
    by (simp add: ok_def print_defs)
  have j: "ok ?resp \<longrightarrow>
      json ?resp = Inr (JObj ?kvs) \<and> map_of ?kvs ''error'' = Some (JObj ?err) \<and>
      map_of ?err ''code'' = Some (JNum (- 32603)) \<and>
      map_of ?err ''message'' = Some (JStr ''Internal error'')"
    by simp
  have e5: "''HTTP error! status: 500'' =
      (if ok ?resp500
       then ''JSON-RPC error '' @ Number_toString demo_platform 0 @ '': '' @ []
       else ''HTTP error! status: '' @ Number_toString demo_platform (status ?resp500))"
    by (simp add: ok_def print_defs)
  have j5: "ok ?resp500 \<longrightarrow>
      json ?resp500 = Inr (JObj []) \<and> map_of [] ''error'' = Some (JObj []) \<and>
      map_of [] ''code'' = Some (JNum 0) \<and> map_of [] ''message'' = Some (JStr [])"
    by (simp add: ok_def)
  have n: "net_error (remoteUrl C)
      (outgoing demo_platform C (schema_method ListToolsRequestSchema) (req_params ?request)) =
      Resolves ?resp" for C
    by (simp add: net_error_def)
  have n5: "net_500 (remoteUrl C)
      (outgoing demo_platform C (schema_method ListToolsRequestSchema) (req_params ?request)) =
      Resolves ?resp500" for C
    by (simp add: net_500_def)
  have f: "onError demo_client = Some DefaultOnError"
    by (simp add: demo_client_def new_HTTPMCPClient_def)
  have fq: "onError demo_client_quiet = Some (GivenOnError quiet_callback)"
    by (simp add: demo_client_quiet_def new_HTTPMCPClient_def)
  have fs: "onError demo_client_silent = None"
    by (simp add: demo_client_silent_def new_HTTPMCPClient_def)
  have first: "forward demo_platform net_error ''tools/list'' demo_client ?request =
      (Inl (Error ''JSON-RPC error -32603: Internal error''),
       demo_client\<lparr>requestId := js_increment (requestId demo_client)\<rparr>,
       [Fetch (remoteUrl demo_client)
          (outgoing demo_platform demo_client (schema_method ListToolsRequestSchema)
             (req_params ?request)),
        OnError (req_method ?request) (Error ''JSON-RPC error -32603: Internal error''),
        SendLoggingMessage ''error''
          (req_method ?request @ '': '' @ ''JSON-RPC error -32603: Internal error'')])"
    using forward_failure [where P = demo_platform and net = net_error and C = demo_client
        and s = ListToolsRequestSchema and request = ?request, OF n e j]
    by (auto simp: demo_handler f)
  have second: "forward demo_platform net_500 ''tools/list'' demo_client ?request =
      (Inl (Error ''HTTP error! status: 500''),
       demo_client\<lparr>requestId := js_increment (requestId demo_client)\<rparr>,
       [Fetch (remoteUrl demo_client)
          (outgoing demo_platform demo_client (schema_method ListToolsRequestSchema)
             (req_params ?request)),
        OnError (req_method ?request) (Error ''HTTP error! status: 500''),
        SendLoggingMessage ''error'' (req_method ?request @ '': '' @ ''HTTP error! status: 500'')])"
    using forward_failure [where P = demo_platform and net = net_500 and C = demo_client
        and s = ListToolsRequestSchema and request = ?request, OF n5 e5 j5]
    by (auto simp: demo_handler f)
  have third: "forward demo_platform net_500 ''tools/list'' demo_client_quiet ?request =
      (Inl (Error ''HTTP error! status: 500''),
       demo_client_quiet\<lparr>requestId := js_increment (requestId demo_client_quiet)\<rparr>,
       [Fetch (remoteUrl demo_client_quiet)
          (outgoing demo_platform demo_client_quiet (schema_method ListToolsRequestSchema)
             (req_params ?request)),
        OnError (req_method ?request) (Error ''HTTP error! status: 500'')])"
    using forward_failure [where P = demo_platform and net = net_500 and C = demo_client_quiet
        and s = ListToolsRequestSchema and request = ?request, OF n5 e5 j5]
    by (auto simp: demo_handler fq quiet_callback_def)
  have fourth: "forward demo_platform net_500 ''tools/list'' demo_client_silent ?request =
      (Inl (Error ''HTTP error! status: 500''),
       demo_client_silent\<lparr>requestId := js_increment (requestId demo_client_silent)\<rparr>,
       [Fetch (remoteUrl demo_client_silent)
          (outgoing demo_platform demo_client_silent (schema_method ListToolsRequestSchema)
             (req_params ?request))])"
    using forward_failure [where P = demo_platform and net = net_500 and C = demo_client_silent
        and s = ListToolsRequestSchema and request = ?request, OF n5 e5 j5]
    by (auto simp: demo_handler fs)
  show ?thesis
    unfolding first second third fourth
    by (simp add: client_defs demo_client_quiet_def demo_client_silent_def print_defs)
qed

text \<open>
  The claim as stated fails: with a configured callback that throws, the failure that
  reaches the caller is the callback's, whose message holds neither the remote code nor the
  remote message.
\<close>

theorem forward_throwing_callback_counterexample:
  \<open>forward demo_platform net_error ''tools/list'' demo_client_throwing
      \<lparr>req_method = ''tools/list'', req_params = JUndefined\<rparr> =
     (Inl (Error ''callback failed''),
      demo_client_throwing\<lparr>requestId := 1\<rparr>,
      [Fetch ''http://localhost:9512''
         \<lparr>init_method = ''POST'',
          init_headers = [(''Content-Type'', ''application/json'')],
          init_body = ''{"jsonrpc":"2.0","id":1,"method":"tools/list"}''\<rparr>,
       OnError ''tools/list'' (Error ''JSON-RPC error -32603: Internal error'')])\<close>
proof -
  let ?request = "\<lparr>req_method = ''tools/list'', req_params = JUndefined\<rparr>"
  let ?err = "[(''code'', JNum (- 32603)), (''message'', JStr ''Internal error'')]"
  let ?kvs = "[(''jsonrpc'', JStr ''2.0''), (''id'', JNum 1), (''error'', JObj ?err)]"
  let ?resp = "\<lparr>status = 200, json = Inr (JObj ?kvs)\<rparr>"
  have n: "net_error (remoteUrl demo_client_throwing)
      (outgoing demo_platform demo_client_throwing ''tools/list'' JUndefined) = Resolves ?resp"
    by (simp add: net_error_def)
  have u: "unwrap_response demo_platform (JObj ?kvs) =
      Inl (Error (''JSON-RPC error '' @ Number_toString demo_platform (- 32603) @ '': '' @
                  ''Internal error''))"
    by (rule unwrap_error [where err = ?err]) simp_all
  have sent: "sendRequest demo_platform net_error demo_client_throwing ''tools/list'' JUndefined =
      (Inl (Error (''JSON-RPC error '' @ Number_toString demo_platform (- 32603) @ '': '' @
                   ''Internal error'')),
       demo_client_throwing\<lparr>requestId := js_increment (requestId demo_client_throwing)\<rparr>,
       [Fetch (remoteUrl demo_client_throwing)
          (outgoing demo_platform demo_client_throwing ''tools/list'' JUndefined)])"
    unfolding sendRequest_resolves [where net = net_error and C = demo_client_throwing
        and P = demo_platform and name = "''tools/list''" and params = JUndefined, OF n]
    by (simp add: ok_def u)
  have p: "req_params ?request = JUndefined" by simp
  show ?thesis
    unfolding forward_fails [OF sent p]
    by (simp add: call_onError_given throwing_callback_def demo_client_throwing_def
        new_HTTPMCPClient_def outgoing_def request_init_def jsonrpc_request_def js_increment_def
        order_defs print_defs)
qed

end
